theory Spec2Isabelle
  imports Main "HOL-Library.Word" "HOL-Library.Signed_Division"
begin

unbundle bit_operations_syntax

section \<open>Data model of main.c\<close>

text \<open>
  The program runs on a Kinetis K60 (ARM Cortex-M4): a C \<open>int\<close> and a \<open>uint32_t\<close> are
  32 bits wide.  Both are modelled as \<open>32 word\<close>: \<open>+\<close>, \<open>-\<close> and \<open>*\<close> wrap around, a signed
  comparison of the source is \<open><s\<close> or \<open>\<le>s\<close>, an unsigned one is \<open><\<close>.  (Signed overflow is
  undefined in C; the model wraps, as the target's instructions do.)

  \<open>time_t\<close> comes from \<open><time.h>\<close>, whose width the source does not fix: it is modelled
  as \<open>int\<close>, and the cast \<open>(uint32_t)\<close> of the source is \<open>word_of_int\<close>.
\<close>

type_synonym cint = "32 word"
type_synonym time_t = int

text \<open>The LED lines of port B (lines 16--19 of main.c).\<close>

definition LED_D9 :: "32 word" where "LED_D9 = 0x20"
definition LED_D10 :: "32 word" where "LED_D10 = 0x10"
definition LED_D11 :: "32 word" where "LED_D11 = 0x8"
definition LED_D12 :: "32 word" where "LED_D12 = 0x4"

definition TOTAL_NOTES :: cint where "TOTAL_NOTES = 10"
definition TOTAL_LIGHT_STATES :: cint where "TOTAL_LIGHT_STATES = 20"

datatype InterfaceState = IDLE | READING_INPUT | PROCESSING_INPUT

text \<open>
  The texts sent over the UART.  Each string literal of the source is one constructor (the
  texts themselves are Czech and carry terminal escape codes); the two formatted lines
  (\<open>snprintf\<close>, lines 256 and 377) carry the values they print.  \<open>MsgMenu\<close> stands for the
  nine strings of \<open>displayMenu\<close>.
\<close>

datatype uart_msg =
    MsgAttempt cint time_t
  | MsgPromptMelody | MsgMelodyChosen | MsgMelodyInvalid
  | MsgPromptLight | MsgLightChosen | MsgLightInvalid
  | MsgAlarmOn | MsgAlarmOff | MsgToggleInvalid
  | MsgStatusHeader
  | MsgStatus bool time_t time_t cint cint cint cint
  | MsgPromptRepeatCount | MsgPromptInterval | MsgRepeatUpdated
  | MsgIntervalInvalid | MsgRepeatCountInvalid
  | MsgPromptDateTime | MsgDateTimeOutOfRange | MsgDateTimeBadFormat
  | MsgTimeSet | MsgTimeNotSet | MsgAlarmSet | MsgAlarmNotSet
  | MsgPromptEnable1 | MsgPromptEnable0 | MsgEnableBadFormat
  | MsgMenu | MsgInitDone

text \<open>
  What the program does to the outside, in order: a text sent, the speaker line driven
  high (\<open>PTA->PSOR = SPK\<close>) or low (\<open>PTA->PCOR = SPK\<close>), a busy wait of \<open>Delay\<close>, a
  write of the port B output register.
\<close>

datatype hw_event =
    Tx uart_msg
  | SpeakerHigh
  | SpeakerLow
  | Busy int
  | PortB "32 word"

text \<open>
  The globals of main.c, the static local \<open>currentRepeatCount\<close> of
  \<open>handleAlarmRepeats\<close>, the registers the program reads back, the bytes the UART
  receiver still holds for the program, and the log of what it did.  \<open>RTC_TCE\<close> and
  \<open>RTC_TAF\<close> are the bits of \<open>RTC_SR\<close> that the masks \<open>RTC_SR_TCE_MASK\<close> and
  \<open>RTC_SR_TAF_MASK\<close> of the device header select.
\<close>

record state =
  interfaceState :: InterfaceState
  inputBuffer :: "char list"
  inputIndex :: cint
  selectedMelodyID :: cint
  selectedLightEffectID :: cint
  alarmEnabled :: bool
  alarmRepeatCount :: cint
  alarmIntervalSeconds :: cint
  globalAlarmTime :: time_t
  isPlayingMelody :: bool
  isShowingLights :: bool
  melodyIndex :: cint
  lightIndex :: cint
  currentRepeatCount :: cint
  RTC_TSR :: "32 word"
  RTC_TAR :: "32 word"
  RTC_TCE :: bool
  RTC_TAF :: bool
  PTB_PDOR :: "32 word"
  uart_rx :: "char list"
  hw_log :: "hw_event list"

record tm =
  tm_sec :: cint
  tm_min :: cint
  tm_hour :: cint
  tm_mday :: cint
  tm_mon :: cint
  tm_year :: cint
  tm_isdst :: "cint option"

record datetime =
  dt_year :: cint
  dt_month :: cint
  dt_day :: cint
  dt_hour :: cint
  dt_min :: cint
  dt_sec :: cint

section \<open>Output primitives\<close>

definition emit :: "hw_event \<Rightarrow> state \<Rightarrow> state" where
  "emit e s = s\<lparr>hw_log := hw_log s @ [e]\<rparr>"

definition UARTSendStr :: "uart_msg \<Rightarrow> state \<Rightarrow> state" where
  "UARTSendStr m s = emit (Tx m) s"

definition Delay :: "int \<Rightarrow> state \<Rightarrow> state" where
  "Delay bound s = emit (Busy bound) s"

definition write_PDOR :: "32 word \<Rightarrow> state \<Rightarrow> state" where
  "write_PDOR v s = emit (PortB v) (s\<lparr>PTB_PDOR := v\<rparr>)"

text \<open>Statements in the order of the source.\<close>

definition run :: "(state \<Rightarrow> state) list \<Rightarrow> state \<Rightarrow> state" where
  "run fs s = fold (\<lambda>f x. f x) fs s"

definition MakeSound :: "32 word \<Rightarrow> state \<Rightarrow> state" where
  "MakeSound duration_ms s = run [emit SpeakerHigh, Delay (uint duration_ms), emit SpeakerLow] s"

definition displayMenu :: "state \<Rightarrow> state" where
  "displayMenu s = UARTSendStr MsgMenu s"

section \<open>Melody and light sequences\<close>

definition startMelody :: "cint \<Rightarrow> state \<Rightarrow> state" where
  "startMelody melodyID s =
     s\<lparr>selectedMelodyID := melodyID, melodyIndex := 0, isPlayingMelody := True\<rparr>"

definition startLightEffect :: "cint \<Rightarrow> state \<Rightarrow> state" where
  "startLightEffect lightEffectID s =
     s\<lparr>selectedLightEffectID := lightEffectID, lightIndex := 0, isShowingLights := True\<rparr>"

definition playNextNote :: "state \<Rightarrow> state" where
  "playNextNote s =
     (if melodyIndex s <s TOTAL_NOTES then
        (let i = melodyIndex s;
             s1 =
               (if selectedMelodyID s = 1 then
                  run [MakeSound (50000 + i * 5000), Delay 50000] s
                else if selectedMelodyID s = 2 then
                  run [MakeSound (100000 + i * 10000), Delay 10000,
                       MakeSound (100000 + i * 10000), Delay 10000,
                       MakeSound (100000 + i * 10000)] s
                else if selectedMelodyID s = 3 then
                  run [MakeSound (10000 + i * 5000), Delay 2000,
                       MakeSound (100000 + i * 5000), Delay 10000,
                       MakeSound (10000 + i * 5000), Delay 5000,
                       MakeSound (100000 + i * 5000), Delay 1000] s
                else s)
         in s1\<lparr>melodyIndex := melodyIndex s1 + 1\<rparr>)
      else s\<lparr>isPlayingMelody := False\<rparr>)"

text \<open>
  \<open>lightIndex % 2\<close> and \<open>lightIndex % 4\<close> are C's truncating remainder (\<open>smod\<close> on the
  signed value); \<open>1 << n\<close> is \<open>push_bit n 1\<close>.
\<close>

definition updateLights :: "state \<Rightarrow> state" where
  "updateLights s =
     (if lightIndex s <s TOTAL_LIGHT_STATES then
        (let i = lightIndex s;
             s1 =
               (if selectedLightEffectID s = 1 then
                  run [(if sint i smod 2 = 0
                        then write_PDOR (PTB_PDOR s AND NOT 0x3C)
                        else write_PDOR (PTB_PDOR s OR 0x3C)),
                       Delay 200000] s
                else if selectedLightEffectID s = 2 then
                  run [write_PDOR (NOT (push_bit (unat i) 1)), Delay 200000] s
                else if selectedLightEffectID s = 3 then
                  run [write_PDOR
                         (NOT (push_bit (unat (word_of_int (sint i smod 4) + 2 :: cint)) 1)),
                       Delay 200000] s
                else s)
         in s1\<lparr>lightIndex := lightIndex s1 + 1\<rparr>)
      else s\<lparr>isShowingLights := False\<rparr>)"

text \<open>
  An LED is lit when its line is low (\<open>PTB->PDOR &= ~0x3C; // Turn all LEDs on\<close>,
  line 155).  \<open>lit_leds\<close> lists the LEDs a value of the output register lights.
\<close>

definition lit_leds :: "32 word \<Rightarrow> 32 word list" where
  "lit_leds pdor = filter (\<lambda>led. pdor AND led = 0) [LED_D9, LED_D10, LED_D11, LED_D12]"

section \<open>The time-match handler\<close>

definition handleAlarmRepeats :: "state \<Rightarrow> state" where
  "handleAlarmRepeats s =
     (if alarmEnabled s then
        (if currentRepeatCount s <s alarmRepeatCount s + 1 then
           (let nextAlarmTime =
                  globalAlarmTime s + sint (currentRepeatCount s * alarmIntervalSeconds s);
                s1 = UARTSendStr (MsgAttempt (currentRepeatCount s) nextAlarmTime) s;
                s2 = s1\<lparr>RTC_TAR := word_of_int nextAlarmTime\<rparr>;
                s3 = s2\<lparr>currentRepeatCount := currentRepeatCount s2 + 1\<rparr>;
                s4 = startMelody (selectedMelodyID s3) s3
            in startLightEffect (selectedLightEffectID s4) s4)
         else s\<lparr>currentRepeatCount := 1, RTC_TAR := 0\<rparr>)
      else s\<lparr>currentRepeatCount := 1, RTC_TAR := 0\<rparr>)"

text \<open>
  The loop of \<open>RTC_IRQHandler\<close> (lines 288--291).  It ends: while the melody flag is set,
  each round either advances \<open>melodyIndex\<close> towards \<open>TOTAL_NOTES\<close> or clears the flag.
\<close>

function play_loop :: "state \<Rightarrow> state" where
  "play_loop s =
     (if isPlayingMelody s \<and> isShowingLights s
      then play_loop (updateLights (playNextNote s))
      else s)"
  by pat_completeness auto

lemma sint_succ_lt_10: "sint (x :: cint) < 10 \<Longrightarrow> sint (x + 1) = sint x + 1"
  using sint_ge [of x] by (simp add: sint_word_ariths signed_take_bit_int_eq_self_iff)

lemma updateLights_melody [simp]:
  "melodyIndex (updateLights s) = melodyIndex s"
  "isPlayingMelody (updateLights s) = isPlayingMelody s"
  by (simp_all add: updateLights_def Let_def run_def emit_def Delay_def write_PDOR_def)

lemma playNextNote_measure:
  "isPlayingMelody s \<Longrightarrow>
   (if isPlayingMelody (playNextNote s) then 1 else 0)
     + nat (10 - sint (melodyIndex (playNextNote s)))
   < (1::nat) + nat (10 - sint (melodyIndex s))"
  by (simp add: playNextNote_def Let_def run_def emit_def Delay_def MakeSound_def
      TOTAL_NOTES_def word_sless_alt sint_succ_lt_10)

termination play_loop
  apply (relation
      "measure (\<lambda>s. (if isPlayingMelody s then 1 else 0) + nat (10 - sint (melodyIndex s)))")
   apply simp
  using playNextNote_measure apply simp
  done

declare play_loop.simps [simp del]

text \<open>
  \<open>RTC_IRQHandler\<close>: the handler of the RTC interrupt.  \<open>time_match\<close> is a time-match
  event: the hardware sets the alarm flag \<open>TAF\<close> and enters the handler.
\<close>

definition RTC_IRQHandler :: "state \<Rightarrow> state" where
  "RTC_IRQHandler s =
     (if RTC_TAF s then
        (let s1 = handleAlarmRepeats s;
             s2 = (if alarmEnabled s1
                   then write_PDOR (PTB_PDOR (play_loop s1) OR 0x3C) (play_loop s1)
                   else s1)
         in displayMenu s2)
      else s)"

definition time_match :: "state \<Rightarrow> state" where
  "time_match s = RTC_IRQHandler (s\<lparr>RTC_TAF := True\<rparr>)"

section \<open>Reading a line from the UART\<close>

text \<open>
  \<open>UARTReceiveStr\<close> waits for each byte (\<open>while (!(UART5_S1 & UART_S1_RDRF_MASK))\<close>):
  when the receiver holds no further byte the call never returns, which is \<open>None\<close>.
  \<open>acc\<close> is \<open>buffer[0..i-1]\<close>, so \<open>i\<close> is \<open>length acc\<close>, \<open>buffer[i++] = c\<close> appends and
  \<open>i--\<close> drops the last character.  The result is the returned flag, the buffer up to
  its terminating zero, and the bytes left in the receiver.
\<close>

definition LF :: char where "LF = CHR 0x0A"
definition CR :: char where "CR = CHR 0x0D"
definition BS :: char where "BS = CHR 0x08"
definition DEL :: char where "DEL = CHR 0x7F"
definition NUL :: char where "NUL = CHR 0x00"

fun UARTReceiveStr_loop :: "int \<Rightarrow> char list \<Rightarrow> char list \<Rightarrow> (bool \<times> char list \<times> char list) option"
  where
  "UARTReceiveStr_loop bufferSize acc [] = None"
| "UARTReceiveStr_loop bufferSize acc (c # rx) =
     (if c = LF \<or> c = CR then
        (if length acc = 0 then Some (True, [], rx) else Some (False, acc, rx))
      else
        (let acc' =
               (if c = BS \<or> c = DEL then (if 0 < length acc then butlast acc else acc)
                else if int (length acc) < bufferSize - 1 then acc @ [c]
                else acc)
         in if int (length acc') < bufferSize - 1
            then UARTReceiveStr_loop bufferSize acc' rx
            else Some (False, acc', rx)))"

definition UARTReceiveStr :: "int \<Rightarrow> state \<Rightarrow> (bool \<times> char list \<times> state) option" where
  "UARTReceiveStr bufferSize s =
     (case UARTReceiveStr_loop bufferSize [] (uart_rx s) of
        None \<Rightarrow> None
      | Some (r, buffer, rest) \<Rightarrow> Some (r, buffer, s\<lparr>uart_rx := rest\<rparr>))"

text \<open>The C string a character array holds: the characters before the first zero.\<close>

definition cstr :: "char list \<Rightarrow> string" where
  "cstr buffer = takeWhile (\<lambda>c. c \<noteq> NUL) buffer"

section \<open>The C library: \<open>atoi\<close> and \<open>sscanf\<close>\<close>

text \<open>
  \<open>atoi\<close> and \<open>sscanf\<close> are functions of the C library, modelled after ISO C: a \<open>%d\<close>
  directive (and \<open>atoi\<close>) skips white space, takes an optional sign and then decimal
  digits.  A value outside the range of \<open>int\<close> is undefined in C; the model wraps it.
\<close>

definition isspace :: "char \<Rightarrow> bool" where
  "isspace c = (c \<in> set [CHR '' '', CHR 0x09, CHR 0x0A, CHR 0x0B, CHR 0x0C, CHR 0x0D])"

definition isdigit :: "char \<Rightarrow> bool" where
  "isdigit c = (48 \<le> (of_char c :: nat) \<and> (of_char c :: nat) \<le> 57)"

fun digits_val :: "int \<Rightarrow> string \<Rightarrow> int \<times> string" where
  "digits_val v [] = (v, [])"
| "digits_val v (c # cs) =
     (if isdigit c then digits_val (v * 10 + (of_char c - 48)) cs else (v, c # cs))"

datatype scan_result = Converted int string | MatchingFailure | InputFailure

definition scan_int :: "string \<Rightarrow> scan_result" where
  "scan_int s =
     (case dropWhile isspace s of
        [] \<Rightarrow> InputFailure
      | c # r \<Rightarrow>
          (let s2 = (if c = CHR ''-'' \<or> c = CHR ''+'' then r else c # r) in
           case s2 of
             [] \<Rightarrow> MatchingFailure
           | d # _ \<Rightarrow>
               if isdigit d
               then (case digits_val 0 s2 of
                       (v, rest) \<Rightarrow> Converted (if c = CHR ''-'' then - v else v) rest)
               else MatchingFailure))"

definition atoi :: "string \<Rightarrow> cint" where
  "atoi s = (case scan_int s of Converted v rest \<Rightarrow> word_of_int v | _ \<Rightarrow> 0)"

text \<open>
  A format of \<open>sscanf\<close> as a list of directives: \<open>%d\<close>, a literal character, white
  space.  \<open>sscanf\<close> gives the value it returns (the number of conversions stored, or
  \<open>EOF = -1\<close> when the input ends before the first one) and the values stored.
\<close>

datatype directive = Int_d | Lit char | Space

fun sscanf :: "directive list \<Rightarrow> string \<Rightarrow> cint list \<Rightarrow> int \<times> cint list" where
  "sscanf [] s vals = (int (length vals), vals)"
| "sscanf (Int_d # fmt) s vals =
     (case scan_int s of
        Converted v rest \<Rightarrow> sscanf fmt rest (vals @ [word_of_int v])
      | MatchingFailure \<Rightarrow> (int (length vals), vals)
      | InputFailure \<Rightarrow> (if vals = [] then - 1 else int (length vals), vals))"
| "sscanf (Lit c # fmt) s vals =
     (case s of
        [] \<Rightarrow> (if vals = [] then - 1 else int (length vals), vals)
      | x # rest \<Rightarrow> if x = c then sscanf fmt rest vals else (int (length vals), vals))"
| "sscanf (Space # fmt) s vals = sscanf fmt (dropWhile isspace s) vals"

text \<open>\<open>"%d-%d-%d %d:%d:%d"\<close> (line 571) and \<open>"%d"\<close> (line 733).\<close>

definition datetime_format :: "directive list" where
  "datetime_format =
     [Int_d, Lit (CHR ''-''), Int_d, Lit (CHR ''-''), Int_d, Space,
      Int_d, Lit (CHR '':''), Int_d, Lit (CHR '':''), Int_d]"

definition int_format :: "directive list" where
  "int_format = [Int_d]"

section \<open>The commands of the menu\<close>

definition chooseMelody :: "state \<Rightarrow> state option" where
  "chooseMelody s =
     (case UARTReceiveStr 100 (UARTSendStr MsgPromptMelody s) of
        None \<Rightarrow> None
      | Some (r, buffer, s1) \<Rightarrow>
          (let melodyChoice = atoi (cstr buffer) in
           if 1 \<le>s melodyChoice \<and> melodyChoice \<le>s 3
           then Some (UARTSendStr MsgMelodyChosen (s1\<lparr>selectedMelodyID := melodyChoice\<rparr>))
           else Some (UARTSendStr MsgMelodyInvalid s1)))"

definition chooseLightEffect :: "state \<Rightarrow> state option" where
  "chooseLightEffect s =
     (case UARTReceiveStr 100 (UARTSendStr MsgPromptLight s) of
        None \<Rightarrow> None
      | Some (r, buffer, s1) \<Rightarrow>
          (let lightEffectChoice = atoi (cstr buffer) in
           if 1 \<le>s lightEffectChoice \<and> lightEffectChoice \<le>s 3
           then Some (UARTSendStr MsgLightChosen
                        (s1\<lparr>selectedLightEffectID := lightEffectChoice\<rparr>))
           else Some (UARTSendStr MsgLightInvalid s1)))"

definition toggleAlarm :: "cint \<Rightarrow> state \<Rightarrow> state" where
  "toggleAlarm enable s =
     (if enable = 1 then UARTSendStr MsgAlarmOn (s\<lparr>alarmEnabled := True\<rparr>)
      else if enable = 0 then UARTSendStr MsgAlarmOff (s\<lparr>alarmEnabled := False\<rparr>)
      else UARTSendStr MsgToggleInvalid s)"

definition displayAlarmStatus :: "state \<Rightarrow> state" where
  "displayAlarmStatus s =
     (let currentTime = uint (RTC_TSR s) in
      run [UARTSendStr MsgStatusHeader,
           UARTSendStr (MsgStatus (alarmEnabled s) (globalAlarmTime s) currentTime
                          (selectedMelodyID s) (selectedLightEffectID s)
                          (alarmRepeatCount s) (alarmIntervalSeconds s))] s)"

definition setAlarmRepeat :: "state \<Rightarrow> state option" where
  "setAlarmRepeat s =
     (case UARTReceiveStr 100 (UARTSendStr MsgPromptRepeatCount s) of
        None \<Rightarrow> None
      | Some (r, buffer, s1) \<Rightarrow>
          (let repeatCount = atoi (cstr buffer) in
           if 0 \<le>s repeatCount then
             (let s2 = s1\<lparr>alarmRepeatCount := repeatCount\<rparr> in
              case UARTReceiveStr 100 (UARTSendStr MsgPromptInterval s2) of
                None \<Rightarrow> None
              | Some (r', buffer', s3) \<Rightarrow>
                  (let intervalSeconds = atoi (cstr buffer') in
                   if 0 <s intervalSeconds
                   then Some (UARTSendStr MsgRepeatUpdated
                                (s3\<lparr>alarmIntervalSeconds := intervalSeconds\<rparr>))
                   else Some (UARTSendStr MsgIntervalInvalid s3)))
           else Some (UARTSendStr MsgRepeatCountInvalid s1)))"

text \<open>
  \<open>getUserTimeInput\<close>: the result \<open>Some d\<close> is \<open>return true\<close> with the six fields
  stored through the pointers, \<open>None\<close> is \<open>return false\<close>.
\<close>

definition getUserTimeInput :: "state \<Rightarrow> (datetime option \<times> state) option" where
  "getUserTimeInput s =
     (case UARTReceiveStr 100 (UARTSendStr MsgPromptDateTime s) of
        None \<Rightarrow> None
      | Some (r, buffer, s1) \<Rightarrow>
          (case sscanf datetime_format (cstr buffer) [] of
             (n, vals) \<Rightarrow>
               if n = 6 then
                 (let d = \<lparr>dt_year = vals ! 0, dt_month = vals ! 1, dt_day = vals ! 2,
                           dt_hour = vals ! 3, dt_min = vals ! 4, dt_sec = vals ! 5\<rparr> in
                  if 1900 <s dt_year d \<and> 1 \<le>s dt_month d \<and> dt_month d \<le>s 12
                     \<and> 1 \<le>s dt_day d \<and> dt_day d \<le>s 31
                     \<and> 0 \<le>s dt_hour d \<and> dt_hour d <s 24
                     \<and> 0 \<le>s dt_min d \<and> dt_min d <s 60
                     \<and> 0 \<le>s dt_sec d \<and> dt_sec d <s 60
                  then Some (Some d, s1)
                  else Some (None, UARTSendStr MsgDateTimeOutOfRange s1))
               else Some (None, UARTSendStr MsgDateTimeBadFormat s1)))"

text \<open>
  \<open>mktime\<close> is the C library's; \<open>setClock\<close> and \<open>setAlarm\<close> take it as a parameter.
  \<open>setClock\<close> leaves \<open>tm_isdst\<close> unset (\<open>None\<close>), \<open>setAlarm\<close> sets it to \<open>-1\<close>.
\<close>

definition setClock :: "(tm \<Rightarrow> time_t) \<Rightarrow> state \<Rightarrow> state option" where
  "setClock mktime s =
     (case getUserTimeInput s of
        None \<Rightarrow> None
      | Some (None, s1) \<Rightarrow> Some (UARTSendStr MsgTimeNotSet s1)
      | Some (Some d, s1) \<Rightarrow>
          (let timeStruct =
                 \<lparr>tm_sec = dt_sec d, tm_min = dt_min d, tm_hour = dt_hour d,
                  tm_mday = dt_day d, tm_mon = dt_month d - 1, tm_year = dt_year d - 1900,
                  tm_isdst = None\<rparr>;
               time = mktime timeStruct;
               s2 = s1\<lparr>RTC_TCE := False\<rparr>;
               s3 = s2\<lparr>RTC_TSR := word_of_int time\<rparr>;
               s4 = s3\<lparr>RTC_TCE := True\<rparr>
           in Some (UARTSendStr MsgTimeSet s4)))"

definition setAlarm :: "(tm \<Rightarrow> time_t) \<Rightarrow> state \<Rightarrow> state option" where
  "setAlarm mktime s =
     (case getUserTimeInput s of
        None \<Rightarrow> None
      | Some (None, s1) \<Rightarrow> Some (UARTSendStr MsgAlarmNotSet s1)
      | Some (Some d, s1) \<Rightarrow>
          (let alarmTime =
                 \<lparr>tm_sec = dt_sec d, tm_min = dt_min d, tm_hour = dt_hour d,
                  tm_mday = dt_day d, tm_mon = dt_month d - 1, tm_year = dt_year d - 1900,
                  tm_isdst = Some (- 1)\<rparr>;
               s2 = s1\<lparr>globalAlarmTime := mktime alarmTime\<rparr>;
               s3 = s2\<lparr>RTC_TCE := False\<rparr>;
               s4 = s3\<lparr>RTC_TAR := word_of_int (globalAlarmTime s3)\<rparr>;
               s5 = s4\<lparr>RTC_TCE := True\<rparr>
           in Some (UARTSendStr MsgAlarmSet s5)))"

section \<open>The command reader and dispatcher\<close>

definition processUserInput :: "(tm \<Rightarrow> time_t) \<Rightarrow> string \<Rightarrow> state \<Rightarrow> state option" where
  "processUserInput mktime input s =
     (let choice = atoi input in
      if choice = 1 then map_option displayMenu (setClock mktime s)
      else if choice = 2 then map_option displayMenu (setAlarm mktime s)
      else if choice = 3 then
        (case UARTReceiveStr 100 (run [UARTSendStr MsgPromptEnable1,
                                       UARTSendStr MsgPromptEnable0] s) of
           None \<Rightarrow> None
         | Some (r, buffer, s1) \<Rightarrow>
             (case sscanf int_format (cstr buffer) [] of
                (n, vals) \<Rightarrow>
                  Some (displayMenu
                          (if n = 1 then toggleAlarm (vals ! 0) s1
                           else UARTSendStr MsgEnableBadFormat s1))))
      else if choice = 4 then map_option displayMenu (chooseMelody s)
      else if choice = 5 then map_option displayMenu (chooseLightEffect s)
      else if choice = 6 then map_option displayMenu (setAlarmRepeat s)
      else if choice = 7 then Some (displayMenu (displayAlarmStatus s))
      else Some (displayMenu s))"

text \<open>
  \<open>checkUserInput\<close>, one poll of the main loop.  \<open>UART5_S1 & UART_S1_RDRF_MASK\<close> holds
  when the receiver has a byte; \<open>inputIndex < sizeof(inputBuffer) - 1\<close> compares as
  unsigned (\<open>sizeof\<close> is a \<open>size_t\<close>).  In state \<open>PROCESSING_INPUT\<close> the command may
  prompt and wait for further lines, so the poll may not return (\<open>None\<close>).
\<close>

definition checkUserInput :: "(tm \<Rightarrow> time_t) \<Rightarrow> state \<Rightarrow> state option" where
  "checkUserInput mktime s =
     (case interfaceState s of
        IDLE \<Rightarrow>
          Some (if uart_rx s \<noteq> []
                then s\<lparr>interfaceState := READING_INPUT, inputIndex := 0\<rparr>
                else s)
      | READING_INPUT \<Rightarrow>
          Some (case uart_rx s of
                  [] \<Rightarrow> s
                | receivedChar # rest \<Rightarrow>
                    (let s1 = s\<lparr>uart_rx := rest\<rparr> in
                     if receivedChar \<noteq> LF \<and> receivedChar \<noteq> CR \<and> inputIndex s1 < 100 - 1
                     then s1\<lparr>inputBuffer :=
                                (inputBuffer s1)[unat (inputIndex s1) := receivedChar],
                              inputIndex := inputIndex s1 + 1\<rparr>
                     else s1\<lparr>inputBuffer := (inputBuffer s1)[unat (inputIndex s1) := NUL],
                              interfaceState := PROCESSING_INPUT\<rparr>))
      | PROCESSING_INPUT \<Rightarrow>
          map_option (\<lambda>s'. s'\<lparr>interfaceState := IDLE\<rparr>)
            (processUserInput mktime (cstr (inputBuffer s)) s))"

text \<open>Polling \<open>n\<close> times, as the loop of \<open>main\<close> does.\<close>

fun polls :: "nat \<Rightarrow> (tm \<Rightarrow> time_t) \<Rightarrow> state \<Rightarrow> state option" where
  "polls 0 mktime s = Some s"
| "polls (Suc n) mktime s =
     (case checkUserInput mktime s of None \<Rightarrow> None | Some s' \<Rightarrow> polls n mktime s')"

text \<open>
  The state when \<open>main\<close> enters its loop: the initial values of the globals, the registers
  as \<open>PortsInit\<close> and \<open>RTCInit\<close> leave them, and \<open>rx\<close> the bytes the UART will deliver.
\<close>

definition boot :: "char list \<Rightarrow> state" where
  "boot rx =
     \<lparr>interfaceState = IDLE, inputBuffer = replicate 100 NUL, inputIndex = 0,
      selectedMelodyID = 1, selectedLightEffectID = 1, alarmEnabled = False,
      alarmRepeatCount = 5, alarmIntervalSeconds = 5, globalAlarmTime = 0,
      isPlayingMelody = False, isShowingLights = False, melodyIndex = 0, lightIndex = 0,
      currentRepeatCount = 1, RTC_TSR = 0, RTC_TAR = 0xFFFFFFFF, RTC_TCE = True,
      RTC_TAF = False, PTB_PDOR = 0x3C, uart_rx = rx, hw_log = [Tx MsgInitDone]\<rparr>"

text \<open>Repeated time-match events.\<close>

fun firing :: "nat \<Rightarrow> state \<Rightarrow> state" where
  "firing 0 s = s"
| "firing (Suc n) s = time_match (firing n s)"

text \<open>
  The status lines \<open>Pokus o buzeni %d, Dalsi Alarm: %s\<close> of a log.  \<open>handleAlarmRepeats\<close>
  sends one in the branch that re-arms the alarm and starts the melody and the lights, and
  nowhere else: each stands for one playback episode.
\<close>

fun attempts :: "hw_event list \<Rightarrow> (cint \<times> time_t) list" where
  "attempts [] = []"
| "attempts (Tx (MsgAttempt k t) # es) = (k, t) # attempts es"
| "attempts (e # es) = attempts es"

text \<open>An example: the alarm enabled after boot, two repeats, alarm time 1000.\<close>

definition armed_example :: state where
  "armed_example = (boot [])\<lparr>alarmEnabled := True, alarmRepeatCount := 2, globalAlarmTime := 1000\<rparr>"

text \<open>
  An example: a repeat sequence under way (the counter at 3) when the user enters a new
  alarm time.
\<close>

definition mid_sequence_example :: state where
  "mid_sequence_example =
     (boot (''2024-02-29 23:59:59'' @ [LF]))\<lparr>alarmEnabled := True, currentRepeatCount := 3\<rparr>"

text \<open>
  An example: the same, with the user choosing command 2 of the menu first.
\<close>

definition menu_example :: state where
  "menu_example =
     (boot (''2'' @ [LF] @ ''2024-02-29 23:59:59'' @ [LF]))
       \<lparr>alarmEnabled := True, currentRepeatCount := 3\<rparr>"

section \<open>The playback loop\<close>

lemma sint_of_nat_small: "n < 2 ^ 31 \<Longrightarrow> sint (of_nat n :: cint) = int n"
  by (simp add: signed_of_nat signed_take_bit_int_eq_self)

lemma attempts_append: "attempts (xs @ ys) = attempts xs @ attempts ys"
  by (induction xs rule: attempts.induct) simp_all

lemmas out_defs = run_def emit_def Delay_def MakeSound_def write_PDOR_def UARTSendStr_def
  displayMenu_def

lemma playNextNote_frame:
  "currentRepeatCount (playNextNote s) = currentRepeatCount s"
  "RTC_TAR (playNextNote s) = RTC_TAR s"
  "alarmEnabled (playNextNote s) = alarmEnabled s"
  "alarmRepeatCount (playNextNote s) = alarmRepeatCount s"
  "alarmIntervalSeconds (playNextNote s) = alarmIntervalSeconds s"
  "globalAlarmTime (playNextNote s) = globalAlarmTime s"
  "selectedMelodyID (playNextNote s) = selectedMelodyID s"
  "selectedLightEffectID (playNextNote s) = selectedLightEffectID s"
  "lightIndex (playNextNote s) = lightIndex s"
  "isShowingLights (playNextNote s) = isShowingLights s"
  "attempts (hw_log (playNextNote s)) = attempts (hw_log s)"
  by (simp_all add: playNextNote_def Let_def out_defs attempts_append)

lemma updateLights_frame:
  "currentRepeatCount (updateLights s) = currentRepeatCount s"
  "RTC_TAR (updateLights s) = RTC_TAR s"
  "alarmEnabled (updateLights s) = alarmEnabled s"
  "alarmRepeatCount (updateLights s) = alarmRepeatCount s"
  "alarmIntervalSeconds (updateLights s) = alarmIntervalSeconds s"
  "globalAlarmTime (updateLights s) = globalAlarmTime s"
  "selectedMelodyID (updateLights s) = selectedMelodyID s"
  "selectedLightEffectID (updateLights s) = selectedLightEffectID s"
  "attempts (hw_log (updateLights s)) = attempts (hw_log s)"
  by (simp_all add: updateLights_def Let_def out_defs attempts_append)

lemma play_loop_frame:
  "currentRepeatCount (play_loop s) = currentRepeatCount s
   \<and> RTC_TAR (play_loop s) = RTC_TAR s
   \<and> alarmEnabled (play_loop s) = alarmEnabled s
   \<and> alarmRepeatCount (play_loop s) = alarmRepeatCount s
   \<and> alarmIntervalSeconds (play_loop s) = alarmIntervalSeconds s
   \<and> globalAlarmTime (play_loop s) = globalAlarmTime s
   \<and> selectedMelodyID (play_loop s) = selectedMelodyID s
   \<and> selectedLightEffectID (play_loop s) = selectedLightEffectID s
   \<and> attempts (hw_log (play_loop s)) = attempts (hw_log s)"
proof (induction s rule: play_loop.induct)
  case (1 s)
  show ?case
  proof (cases "isPlayingMelody s \<and> isShowingLights s")
    case True
    then have "play_loop s = play_loop (updateLights (playNextNote s))"
      by (subst play_loop.simps) simp
    with 1 True show ?thesis
      by (simp add: playNextNote_frame updateLights_frame)
  next
    case False
    then have "play_loop s = s"
      by (subst play_loop.simps) auto
    then show ?thesis by simp
  qed
qed

lemma playNextNote_step:
  "melodyIndex s <s 10 \<Longrightarrow>
   melodyIndex (playNextNote s) = melodyIndex s + 1
   \<and> isPlayingMelody (playNextNote s) = isPlayingMelody s"
  by (simp add: playNextNote_def Let_def out_defs TOTAL_NOTES_def)

lemma playNextNote_end:
  "\<not> melodyIndex s <s 10 \<Longrightarrow> playNextNote s = s\<lparr>isPlayingMelody := False\<rparr>"
  by (simp add: playNextNote_def TOTAL_NOTES_def)

lemma updateLights_step:
  "lightIndex s <s 20 \<Longrightarrow>
   lightIndex (updateLights s) = lightIndex s + 1
   \<and> isShowingLights (updateLights s) = isShowingLights s"
  by (simp add: updateLights_def Let_def out_defs TOTAL_LIGHT_STATES_def)

lemma play_loop_run:
  "j + k = 10 \<Longrightarrow> isPlayingMelody s \<Longrightarrow> isShowingLights s \<Longrightarrow>
   melodyIndex s = of_nat j \<Longrightarrow> lightIndex s = of_nat j \<Longrightarrow>
   melodyIndex (play_loop s) = 10 \<and> \<not> isPlayingMelody (play_loop s)
   \<and> lightIndex (play_loop s) = 11 \<and> isShowingLights (play_loop s)"
proof (induction k arbitrary: s j)
  case 0
  let ?t = "updateLights (playNextNote s)"
  from 0 have j: "j = 10" by simp
  from 0 have a: "playNextNote s = s\<lparr>isPlayingMelody := False\<rparr>"
    by (intro playNextNote_end) (simp add: word_sless_alt j)
  have b: "lightIndex ?t = 11 \<and> isShowingLights ?t \<and> melodyIndex ?t = 10 \<and> \<not> isPlayingMelody ?t"
    using 0 updateLights_step [of "s\<lparr>isPlayingMelody := False\<rparr>"]
    by (simp add: a word_sless_alt j)
  have "play_loop s = play_loop ?t"
    using 0 by (subst play_loop.simps) simp
  also have "\<dots> = ?t"
    using b by (subst play_loop.simps) simp
  finally show ?case using b by simp
next
  case (Suc k)
  let ?t = "updateLights (playNextNote s)"
  have lt: "j < 10" using Suc.prems by simp
  have m: "melodyIndex s <s 10" "lightIndex s <s 20"
    using Suc.prems(4,5) lt by (simp_all add: word_sless_alt sint_of_nat_small)
  have t: "isPlayingMelody ?t" "isShowingLights ?t"
      "melodyIndex ?t = of_nat (Suc j)" "lightIndex ?t = of_nat (Suc j)"
    using Suc.prems(2-5) m playNextNote_step [of s] updateLights_step [of "playNextNote s"]
    by (simp_all add: playNextNote_frame)
  have "play_loop s = play_loop ?t"
    using Suc.prems by (subst play_loop.simps) simp
  moreover have "Suc j + k = 10" using Suc.prems by simp
  ultimately show ?case using Suc.IH [of "Suc j" ?t] t by simp
qed

section \<open>The alarm scheduler\<close>

text \<open>
  C5.  When the alarm is disabled, a time-match event clears the match register
  (\<open>RTC_TAR = 0\<close>) and sets the repeat counter back to its initial value 1, whatever the
  counter was before, and starts no playback: the playback flags and cursors and the LED
  register are untouched, and the only output is the menu.
\<close>

theorem disabled_match_clears_and_resets:
  assumes "\<not> alarmEnabled s"
  shows "currentRepeatCount (time_match s) = 1
       \<and> RTC_TAR (time_match s) = 0
       \<and> hw_log (time_match s) = hw_log s @ [Tx MsgMenu]
       \<and> isPlayingMelody (time_match s) = isPlayingMelody s
       \<and> isShowingLights (time_match s) = isShowingLights s
       \<and> melodyIndex (time_match s) = melodyIndex s
       \<and> lightIndex (time_match s) = lightIndex s
       \<and> PTB_PDOR (time_match s) = PTB_PDOR s"
  using assms
  by (simp add: time_match_def RTC_IRQHandler_def handleAlarmRepeats_def displayMenu_def
      UARTSendStr_def emit_def Let_def)

theorem disabled_match_clears_and_resets_witness:
  "\<not> alarmEnabled ((boot [])\<lparr>currentRepeatCount := 4, RTC_TAR := 1015\<rparr>)
   \<and> currentRepeatCount (time_match ((boot [])\<lparr>currentRepeatCount := 4, RTC_TAR := 1015\<rparr>)) = 1
   \<and> RTC_TAR (time_match ((boot [])\<lparr>currentRepeatCount := 4, RTC_TAR := 1015\<rparr>)) = 0
   \<and> hw_log (time_match ((boot [])\<lparr>currentRepeatCount := 4, RTC_TAR := 1015\<rparr>))
       = [Tx MsgInitDone, Tx MsgMenu]"
  using disabled_match_clears_and_resets
    [of "(boot [])\<lparr>currentRepeatCount := 4, RTC_TAR := 1015\<rparr>"]
  by (simp add: boot_def)

lemma handleAlarmRepeats_rearm:
  assumes "alarmEnabled s" "currentRepeatCount s <s alarmRepeatCount s + 1"
  shows "handleAlarmRepeats s =
    s\<lparr>hw_log := hw_log s @ [Tx (MsgAttempt (currentRepeatCount s)
            (globalAlarmTime s + sint (currentRepeatCount s * alarmIntervalSeconds s)))],
      RTC_TAR := word_of_int
            (globalAlarmTime s + sint (currentRepeatCount s * alarmIntervalSeconds s)),
      currentRepeatCount := currentRepeatCount s + 1,
      melodyIndex := 0, isPlayingMelody := True,
      lightIndex := 0, isShowingLights := True\<rparr>"
  using assms
  by (simp add: handleAlarmRepeats_def Let_def startMelody_def startLightEffect_def
      UARTSendStr_def emit_def)

text \<open>What a time-match event that starts playback leaves behind.\<close>

lemma time_match_plays:
  assumes "alarmEnabled s" "currentRepeatCount s <s alarmRepeatCount s + 1"
  shows "melodyIndex (time_match s) = 10 \<and> \<not> isPlayingMelody (time_match s)
       \<and> lightIndex (time_match s) = 11 \<and> isShowingLights (time_match s)"
proof -
  let ?s0 = "s\<lparr>RTC_TAF := True\<rparr>"
  let ?s1 = "handleAlarmRepeats ?s0"
  have h: "?s1 =
    ?s0\<lparr>hw_log := hw_log ?s0 @ [Tx (MsgAttempt (currentRepeatCount ?s0)
            (globalAlarmTime ?s0 + sint (currentRepeatCount ?s0 * alarmIntervalSeconds ?s0)))],
      RTC_TAR := word_of_int
            (globalAlarmTime ?s0 + sint (currentRepeatCount ?s0 * alarmIntervalSeconds ?s0)),
      currentRepeatCount := currentRepeatCount ?s0 + 1,
      melodyIndex := 0, isPlayingMelody := True,
      lightIndex := 0, isShowingLights := True\<rparr>"
    using assms by (intro handleAlarmRepeats_rearm) simp_all
  have fresh: "isPlayingMelody ?s1" "isShowingLights ?s1"
      "melodyIndex ?s1 = of_nat 0" "lightIndex ?s1 = of_nat 0" "alarmEnabled ?s1"
    using assms(1) by (simp_all add: h)
  have loop: "melodyIndex (play_loop ?s1) = 10 \<and> \<not> isPlayingMelody (play_loop ?s1)
       \<and> lightIndex (play_loop ?s1) = 11 \<and> isShowingLights (play_loop ?s1)"
    using fresh by (intro play_loop_run [of 0 10]) simp_all
  have "time_match s = displayMenu (write_PDOR (PTB_PDOR (play_loop ?s1) OR 0x3C) (play_loop ?s1))"
    using fresh(5) by (simp add: time_match_def RTC_IRQHandler_def Let_def)
  then show ?thesis using loop by (simp add: out_defs)
qed

text \<open>
  C3.  A time-match event that starts playback (alarm enabled, repeats left) returns with
  the tone sequence complete (all 10 steps, flag cleared) but the light sequence stopped
  after 11 of its 20 steps and still flagged as showing: the loop of \<open>RTC_IRQHandler\<close>
  runs only while both flags are set, so it ends in the round in which \<open>playNextNote\<close>
  clears the melody flag.
\<close>

theorem playback_leaves_lights_unfinished:
  assumes "alarmEnabled s" "currentRepeatCount s <s alarmRepeatCount s + 1"
  shows "melodyIndex (time_match s) = TOTAL_NOTES \<and> \<not> isPlayingMelody (time_match s)
       \<and> lightIndex (time_match s) = 11
       \<and> lightIndex (time_match s) <s TOTAL_LIGHT_STATES
       \<and> isShowingLights (time_match s)"
  using time_match_plays [OF assms]
  by (simp add: TOTAL_NOTES_def TOTAL_LIGHT_STATES_def word_sless_alt)

theorem playback_leaves_lights_unfinished_witness:
  "alarmEnabled ((boot [])\<lparr>alarmEnabled := True\<rparr>)
   \<and> currentRepeatCount ((boot [])\<lparr>alarmEnabled := True\<rparr>)
       <s alarmRepeatCount ((boot [])\<lparr>alarmEnabled := True\<rparr>) + 1
   \<and> lightIndex (time_match ((boot [])\<lparr>alarmEnabled := True\<rparr>)) = 11
   \<and> isShowingLights (time_match ((boot [])\<lparr>alarmEnabled := True\<rparr>))"
  using playback_leaves_lights_unfinished [of "(boot [])\<lparr>alarmEnabled := True\<rparr>"]
  by (simp add: boot_def word_sless_alt)

text \<open>
  In the log of the first episode after boot, the light steps are the waits of
  \<open>Delay(200000)\<close>: there are 11 of them.
\<close>

lemma first_episode_light_steps:
  "length (filter (\<lambda>e. e = Busy 200000)
     (hw_log (time_match ((boot [])\<lparr>alarmEnabled := True\<rparr>)))) = 11"
  by code_simp


lemma time_match_rearm:
  assumes "alarmEnabled s" "currentRepeatCount s <s alarmRepeatCount s + 1"
  shows "currentRepeatCount (time_match s) = currentRepeatCount s + 1"
    and "RTC_TAR (time_match s) = word_of_int
          (globalAlarmTime s + sint (currentRepeatCount s * alarmIntervalSeconds s))"
    and "attempts (hw_log (time_match s)) = attempts (hw_log s) @
          [(currentRepeatCount s,
            globalAlarmTime s + sint (currentRepeatCount s * alarmIntervalSeconds s))]"
    and "alarmEnabled (time_match s)"
    and "alarmRepeatCount (time_match s) = alarmRepeatCount s"
    and "alarmIntervalSeconds (time_match s) = alarmIntervalSeconds s"
    and "globalAlarmTime (time_match s) = globalAlarmTime s"
proof -
  let ?s0 = "s\<lparr>RTC_TAF := True\<rparr>"
  let ?s1 = "handleAlarmRepeats ?s0"
  have h: "?s1 =
    ?s0\<lparr>hw_log := hw_log ?s0 @ [Tx (MsgAttempt (currentRepeatCount ?s0)
            (globalAlarmTime ?s0 + sint (currentRepeatCount ?s0 * alarmIntervalSeconds ?s0)))],
      RTC_TAR := word_of_int
            (globalAlarmTime ?s0 + sint (currentRepeatCount ?s0 * alarmIntervalSeconds ?s0)),
      currentRepeatCount := currentRepeatCount ?s0 + 1,
      melodyIndex := 0, isPlayingMelody := True,
      lightIndex := 0, isShowingLights := True\<rparr>"
    using assms by (intro handleAlarmRepeats_rearm) simp_all
  have en: "alarmEnabled ?s1" using assms(1) by (simp add: h)
  have tm: "time_match s
      = displayMenu (write_PDOR (PTB_PDOR (play_loop ?s1) OR 0x3C) (play_loop ?s1))"
    using en by (simp add: time_match_def RTC_IRQHandler_def Let_def)
  have fr: "currentRepeatCount (play_loop ?s1) = currentRepeatCount s + 1"
    "RTC_TAR (play_loop ?s1) = word_of_int
          (globalAlarmTime s + sint (currentRepeatCount s * alarmIntervalSeconds s))"
    "attempts (hw_log (play_loop ?s1)) = attempts (hw_log s) @
          [(currentRepeatCount s,
            globalAlarmTime s + sint (currentRepeatCount s * alarmIntervalSeconds s))]"
    "alarmEnabled (play_loop ?s1)"
    "alarmRepeatCount (play_loop ?s1) = alarmRepeatCount s"
    "alarmIntervalSeconds (play_loop ?s1) = alarmIntervalSeconds s"
    "globalAlarmTime (play_loop ?s1) = globalAlarmTime s"
    using play_loop_frame [of ?s1] assms(1) by (simp_all add: h attempts_append)
  show "currentRepeatCount (time_match s) = currentRepeatCount s + 1"
    and "RTC_TAR (time_match s) = word_of_int
          (globalAlarmTime s + sint (currentRepeatCount s * alarmIntervalSeconds s))"
    and "attempts (hw_log (time_match s)) = attempts (hw_log s) @
          [(currentRepeatCount s,
            globalAlarmTime s + sint (currentRepeatCount s * alarmIntervalSeconds s))]"
    and "alarmEnabled (time_match s)"
    and "alarmRepeatCount (time_match s) = alarmRepeatCount s"
    and "alarmIntervalSeconds (time_match s) = alarmIntervalSeconds s"
    and "globalAlarmTime (time_match s) = globalAlarmTime s"
    using fr by (simp_all add: tm out_defs attempts_append)
qed

lemma time_match_exhausted:
  assumes "alarmEnabled s" "\<not> currentRepeatCount s <s alarmRepeatCount s + 1"
  shows "currentRepeatCount (time_match s) = 1"
    and "RTC_TAR (time_match s) = 0"
    and "attempts (hw_log (time_match s)) = attempts (hw_log s)"
proof -
  let ?s0 = "s\<lparr>RTC_TAF := True\<rparr>"
  let ?s1 = "?s0\<lparr>currentRepeatCount := 1, RTC_TAR := 0\<rparr>"
  have h: "handleAlarmRepeats ?s0 = ?s1"
    using assms by (simp add: handleAlarmRepeats_def)
  have tm: "time_match s
      = displayMenu (write_PDOR (PTB_PDOR (play_loop ?s1) OR 0x3C) (play_loop ?s1))"
    using assms(1) by (simp add: time_match_def RTC_IRQHandler_def Let_def h)
  show "currentRepeatCount (time_match s) = 1"
    and "RTC_TAR (time_match s) = 0"
    and "attempts (hw_log (time_match s)) = attempts (hw_log s)"
    using play_loop_frame [of ?s1]
    by (simp_all add: tm out_defs attempts_append)
qed

text \<open>A match event with the repeats exhausted and no melody flagged is silent.\<close>

lemma time_match_exhausted_silent:
  assumes "alarmEnabled s" "\<not> currentRepeatCount s <s alarmRepeatCount s + 1"
    and "\<not> isPlayingMelody s"
  shows "hw_log (time_match s) = hw_log s @ [PortB (PTB_PDOR s OR 0x3C), Tx MsgMenu]"
proof -
  let ?s0 = "s\<lparr>RTC_TAF := True\<rparr>"
  let ?s1 = "?s0\<lparr>currentRepeatCount := 1, RTC_TAR := 0\<rparr>"
  have h: "handleAlarmRepeats ?s0 = ?s1"
    using assms by (simp add: handleAlarmRepeats_def)
  have p: "play_loop ?s1 = ?s1"
    using assms(3) by (subst play_loop.simps) simp
  show ?thesis
    using assms(1) by (simp add: time_match_def RTC_IRQHandler_def Let_def h p out_defs)
qed

lemma firing_invariant:
  assumes "alarmEnabled s" "currentRepeatCount s = 1"
    and "alarmRepeatCount s = of_nat n" "n < 2 ^ 31 - 1"
    and "alarmIntervalSeconds s = of_nat k" "n * k < 2 ^ 31"
  shows "j \<le> n \<Longrightarrow>
    alarmEnabled (firing j s)
    \<and> alarmRepeatCount (firing j s) = of_nat n
    \<and> alarmIntervalSeconds (firing j s) = of_nat k
    \<and> globalAlarmTime (firing j s) = globalAlarmTime s
    \<and> currentRepeatCount (firing j s) = of_nat (Suc j)
    \<and> attempts (hw_log (firing j s))
        = attempts (hw_log s)
          @ map (\<lambda>i. (of_nat i, globalAlarmTime s + int (i * k))) [1..<Suc j]
    \<and> (if j = 0 then RTC_TAR (firing j s) = RTC_TAR s
        else RTC_TAR (firing j s) = word_of_int (globalAlarmTime s + int (j * k)))"
proof (induction j)
  case 0
  show ?case using assms by simp
next
  case (Suc j)
  let ?t = "firing j s"
  from Suc have IH:
    "alarmEnabled ?t" "alarmRepeatCount ?t = of_nat n" "alarmIntervalSeconds ?t = of_nat k"
    "globalAlarmTime ?t = globalAlarmTime s" "currentRepeatCount ?t = of_nat (Suc j)"
    "attempts (hw_log ?t) = attempts (hw_log s)
          @ map (\<lambda>i. (of_nat i, globalAlarmTime s + int (i * k))) [1..<Suc j]"
    by simp_all
  have jn: "Suc j \<le> n" using Suc.prems .
  have b1: "Suc j < 2 ^ 31" "Suc n < 2 ^ 31" using jn assms(4) by simp_all
  have "Suc j * k \<le> n * k" using jn by (intro mult_le_mono1)
  then have b2: "Suc j * k < 2 ^ 31" using assms(6) by simp
  have lt: "currentRepeatCount ?t <s alarmRepeatCount ?t + 1"
  proof -
    have e1: "sint (currentRepeatCount ?t) = int (Suc j)"
      unfolding IH(5) using b1(1) by (rule sint_of_nat_small)
    have "alarmRepeatCount ?t + 1 = of_nat (Suc n)"
      unfolding IH(2) by simp
    then have e2: "sint (alarmRepeatCount ?t + 1) = int (Suc n)"
      using sint_of_nat_small [OF b1(2)] by (simp only:)
    show ?thesis
      unfolding word_sless_alt e1 e2 using jn by simp
  qed
  have prod: "sint ((of_nat (Suc j) :: cint) * of_nat k) = int (Suc j * k)"
  proof -
    have "(of_nat (Suc j) :: cint) * of_nat k = of_nat (Suc j * k)"
      by (simp only: of_nat_mult)
    then show ?thesis
      using sint_of_nat_small [OF b2] by (simp only:)
  qed
  have nxt: "(of_nat (Suc j) :: cint) + 1 = of_nat (Suc (Suc j))" by simp
  note R = time_match_rearm [OF IH(1) lt]
  have f: "firing (Suc j) s = time_match ?t" by simp
  have u: "[1..<Suc (Suc j)] = [1..<Suc j] @ [Suc j]" by simp
  have C: "currentRepeatCount (time_match ?t) = of_nat (Suc (Suc j))"
    by (simp only: R(1) IH(5) nxt)
  have E: "alarmEnabled (time_match ?t)" by (rule R(4))
  have N: "alarmRepeatCount (time_match ?t) = of_nat n" by (simp only: R(5) IH(2))
  have K: "alarmIntervalSeconds (time_match ?t) = of_nat k" by (simp only: R(6) IH(3))
  have G: "globalAlarmTime (time_match ?t) = globalAlarmTime s" by (simp only: R(7) IH(4))
  have A: "attempts (hw_log (time_match ?t)) = attempts (hw_log s)
          @ map (\<lambda>i. (of_nat i, globalAlarmTime s + int (i * k))) [1..<Suc (Suc j)]"
    by (simp only: R(3) IH(3,4,5,6) prod u map_append list.map append_assoc)
  have T: "RTC_TAR (time_match ?t) = word_of_int (globalAlarmTime s + int (Suc j * k))"
    by (simp only: R(2) IH(3,4,5) prod)
  show ?case
    unfolding f using C E N K G A T by simp
qed


lemma counter_below:
  assumes "Suc j \<le> n" "n < 2 ^ 31 - 1"
  shows "(of_nat (Suc j) :: cint) <s of_nat n + 1"
proof -
  have b: "Suc j < 2 ^ 31" "Suc n < 2 ^ 31" using assms by simp_all
  have e1: "sint (of_nat (Suc j) :: cint) = int (Suc j)"
    using b(1) by (rule sint_of_nat_small)
  have "(of_nat n :: cint) + 1 = of_nat (Suc n)" by simp
  then have e2: "sint ((of_nat n :: cint) + 1) = int (Suc n)"
    using sint_of_nat_small [OF b(2)] by (simp only:)
  show ?thesis
    unfolding word_sless_alt e1 e2 using assms(1) by simp
qed

lemma firing_melody_flag:
  assumes "alarmEnabled s" "currentRepeatCount s = 1"
    and "alarmRepeatCount s = of_nat n" "n < 2 ^ 31 - 1"
    and "alarmIntervalSeconds s = of_nat k" "n * k < 2 ^ 31"
    and "\<not> isPlayingMelody s" "j \<le> n"
  shows "\<not> isPlayingMelody (firing j s)"
proof (cases j)
  case 0
  then show ?thesis using assms(7) by simp
next
  case (Suc i)
  let ?t = "firing i s"
  have "i \<le> n" using Suc assms(8) by simp
  from firing_invariant [OF assms(1-6) this]
  have I: "alarmEnabled ?t" "alarmRepeatCount ?t = of_nat n"
    "currentRepeatCount ?t = of_nat (Suc i)"
    by simp_all
  have "Suc i \<le> n" using Suc assms(8) by simp
  then have "currentRepeatCount ?t <s alarmRepeatCount ?t + 1"
    unfolding I(2,3) using assms(4) by (rule counter_below)
  from time_match_plays [OF I(1) this] show ?thesis
    unfolding Suc by simp
qed

text \<open>
  C1.  With the alarm enabled, \<open>repeatCount = n\<close> and interval \<open>k > 0\<close> (and no overflow
  of \<open>int\<close>), the \<open>n + 1\<close> time-match events of a firing sequence start exactly \<open>n\<close>
  playback episodes, not \<open>n + 1\<close>: the \<open>i\<close>-th event (\<open>i = 1..n\<close>) announces attempt \<open>i\<close>,
  re-arms the match register to \<open>alarmTime + i * k\<close> and plays; the last event finds the
  counter at \<open>n + 1\<close>, clears the match register, resets the counter and plays nothing:
  all it emits is the write that switches the LEDs off and the menu.
\<close>

theorem firing_sequence_episodes:
  assumes "alarmEnabled s" "currentRepeatCount s = 1"
    and "alarmRepeatCount s = of_nat n" "n < 2 ^ 31 - 1"
    and "alarmIntervalSeconds s = of_nat k" "0 < k" "n * k < 2 ^ 31"
    and "\<not> isPlayingMelody s"
  shows "attempts (hw_log (firing (Suc n) s))
           = attempts (hw_log s)
             @ map (\<lambda>i. (of_nat i, globalAlarmTime s + int (i * k))) [1..<Suc n]
       \<and> length (attempts (hw_log (firing (Suc n) s))) = length (attempts (hw_log s)) + n
       \<and> map (\<lambda>i. RTC_TAR (firing i s)) [1..<Suc n]
           = map (\<lambda>i. word_of_int (globalAlarmTime s + int (i * k))) [1..<Suc n]
       \<and> RTC_TAR (firing (Suc n) s) = 0
       \<and> currentRepeatCount (firing (Suc n) s) = 1
       \<and> hw_log (firing (Suc n) s)
           = hw_log (firing n s) @ [PortB (PTB_PDOR (firing n s) OR 0x3C), Tx MsgMenu]"
proof -
  note inv = firing_invariant [OF assms(1-5) assms(7)]
  let ?t = "firing n s"
  have I: "alarmEnabled ?t" "alarmRepeatCount ?t = of_nat n"
    "currentRepeatCount ?t = of_nat (Suc n)"
    "attempts (hw_log ?t) = attempts (hw_log s)
       @ map (\<lambda>i. (of_nat i, globalAlarmTime s + int (i * k))) [1..<Suc n]"
    using inv [of n] by simp_all
  have "alarmRepeatCount ?t + 1 = currentRepeatCount ?t"
    unfolding I(2,3) by simp
  then have ex: "\<not> currentRepeatCount ?t <s alarmRepeatCount ?t + 1"
    by (simp add: word_sless_alt)
  note X = time_match_exhausted [OF I(1) ex]
  have f: "firing (Suc n) s = time_match ?t" by simp
  have A: "attempts (hw_log (firing (Suc n) s))
           = attempts (hw_log s)
             @ map (\<lambda>i. (of_nat i, globalAlarmTime s + int (i * k))) [1..<Suc n]"
    by (simp only: f X(3) I(4))
  have T: "RTC_TAR (firing i s) = word_of_int (globalAlarmTime s + int (i * k))"
    if "i \<in> set [1..<Suc n]" for i
  proof -
    from that have "i \<le> n" "i \<noteq> 0" by (simp_all del: upt_Suc)
    then show ?thesis using inv [of i] by simp
  qed
  have M: "map (\<lambda>i. RTC_TAR (firing i s)) [1..<Suc n]
           = map (\<lambda>i. word_of_int (globalAlarmTime s + int (i * k))) [1..<Suc n]"
    using T by (intro map_cong refl)
  have L: "length (attempts (hw_log (firing (Suc n) s))) = length (attempts (hw_log s)) + n"
    unfolding A by simp
  have "\<not> isPlayingMelody ?t"
    using assms(1-5) assms(7,8) by (rule firing_melody_flag) simp
  from time_match_exhausted_silent [OF I(1) ex this]
  have S: "hw_log (firing (Suc n) s)
           = hw_log ?t @ [PortB (PTB_PDOR ?t OR 0x3C), Tx MsgMenu]"
    by (simp only: f)
  show ?thesis
    using A L M X(1,2) S unfolding f by (intro conjI)
qed

theorem firing_sequence_episodes_witness:
  "alarmEnabled armed_example \<and> currentRepeatCount armed_example = 1
   \<and> alarmRepeatCount armed_example = 2 \<and> alarmIntervalSeconds armed_example = 5
   \<and> attempts (hw_log (firing (Suc 2) armed_example)) = [(1, 1005), (2, 1010)]
   \<and> map (\<lambda>i. RTC_TAR (firing i armed_example)) [1, 2] = [1005, 1010]
   \<and> RTC_TAR (firing (Suc 2) armed_example) = 0
   \<and> currentRepeatCount (firing (Suc 2) armed_example) = 1"
proof -
  have h: "alarmEnabled armed_example" "currentRepeatCount armed_example = 1"
    "alarmRepeatCount armed_example = of_nat 2" "alarmIntervalSeconds armed_example = of_nat 5"
    by (simp_all add: armed_example_def boot_def)
  have e: "attempts (hw_log armed_example) = []" "globalAlarmTime armed_example = 1000"
    by (simp_all add: armed_example_def boot_def)
  have u: "[1..<Suc 2] = [1, 2]"
    by (simp add: upt_rec)
  have p: "\<not> isPlayingMelody armed_example"
    by (simp add: armed_example_def boot_def)
  have b: "(2::nat) < 2 ^ 31 - 1" "(0::nat) < 5" "(2::nat) * 5 < 2 ^ 31"
    by simp_all
  note T = firing_sequence_episodes
    [of armed_example 2 5, OF h(1,2,3) b(1) h(4) b(2,3) p, unfolded u e]
  note T1 = T [THEN conjunct1]
  note T3 = T [THEN conjunct2, THEN conjunct2, THEN conjunct1]
  note T4 = T [THEN conjunct2, THEN conjunct2, THEN conjunct2, THEN conjunct1]
  note T5 = T [THEN conjunct2, THEN conjunct2, THEN conjunct2, THEN conjunct2, THEN conjunct1]
  show ?thesis
    using T1 T3 T4 T5 h by (simp del: firing.simps)
qed

text \<open>
  With \<open>repeatCount = 0\<close> the very first time-match event clears the match register and
  the alarm never sounds: the log shows the LEDs switched off and the menu, nothing else.
\<close>

lemma no_repeat_alarm_never_sounds:
  "hw_log (time_match ((boot [])\<lparr>alarmEnabled := True, alarmRepeatCount := 0\<rparr>))
     = [Tx MsgInitDone, PortB 0x3C, Tx MsgMenu]
   \<and> RTC_TAR (time_match ((boot [])\<lparr>alarmEnabled := True, alarmRepeatCount := 0\<rparr>)) = 0
   \<and> currentRepeatCount (time_match ((boot [])\<lparr>alarmEnabled := True, alarmRepeatCount := 0\<rparr>)) = 1"
  by code_simp

section \<open>The tone and light sequences\<close>

lemma funpow_playNextNote:
  "j + k \<le> 10 \<Longrightarrow> melodyIndex s = of_nat j \<Longrightarrow>
   melodyIndex ((playNextNote ^^ k) s) = of_nat (j + k)
   \<and> isPlayingMelody ((playNextNote ^^ k) s) = isPlayingMelody s"
proof (induction k arbitrary: s j)
  case 0
  then show ?case by simp
next
  case (Suc k)
  have "j < 10" using Suc.prems by simp
  then have lt: "melodyIndex s <s 10"
    using Suc.prems(2) by (simp add: word_sless_alt sint_of_nat_small)
  have st: "melodyIndex (playNextNote s) = of_nat (Suc j)"
    "isPlayingMelody (playNextNote s) = isPlayingMelody s"
    using playNextNote_step [OF lt] Suc.prems(2) by simp_all
  have "Suc j + k \<le> 10" using Suc.prems by simp
  from Suc.IH [OF this st(1)] st(2) show ?case
    by (simp add: funpow_swap1)
qed

lemma funpow_updateLights:
  "j + k \<le> 20 \<Longrightarrow> lightIndex s = of_nat j \<Longrightarrow>
   lightIndex ((updateLights ^^ k) s) = of_nat (j + k)
   \<and> isShowingLights ((updateLights ^^ k) s) = isShowingLights s"
proof (induction k arbitrary: s j)
  case 0
  then show ?case by simp
next
  case (Suc k)
  have "j < 20" using Suc.prems by simp
  then have lt: "lightIndex s <s 20"
    using Suc.prems(2) by (simp add: word_sless_alt sint_of_nat_small)
  have st: "lightIndex (updateLights s) = of_nat (Suc j)"
    "isShowingLights (updateLights s) = isShowingLights s"
    using updateLights_step [OF lt] Suc.prems(2) by simp_all
  have "Suc j + k \<le> 20" using Suc.prems by simp
  from Suc.IH [OF this st(1)] st(2) show ?case
    by (simp add: funpow_swap1)
qed

lemma updateLights_end:
  "\<not> lightIndex s <s 20 \<Longrightarrow> updateLights s = s\<lparr>isShowingLights := False\<rparr>"
  by (simp add: updateLights_def TOTAL_LIGHT_STATES_def)

text \<open>
  C4 as stated fails: after \<open>startMelody\<close> and ten calls of \<open>playNextNote\<close> the melody
  flag is still set, and after \<open>startLightEffect\<close> and twenty calls of \<open>updateLights\<close>
  so is the light flag.
\<close>

theorem cursor_inactive_counterexample:
  "isPlayingMelody ((playNextNote ^^ 10) (startMelody 1 (boot [])))
   \<and> isShowingLights ((updateLights ^^ 20) (startLightEffect 1 (boot [])))"
  using funpow_playNextNote [of 0 10 "startMelody 1 (boot [])"]
    funpow_updateLights [of 0 20 "startLightEffect 1 (boot [])"]
  by (simp add: startMelody_def startLightEffect_def)

text \<open>
  C4, amended.  After \<open>startMelody\<close>, ten steps bring \<open>melodyIndex\<close> to 10 and leave the
  flag \<open>isPlayingMelody\<close> set; the eleventh step emits no hardware action (the log and
  every register are unchanged) and only clears the flag; a further step changes nothing.
  The same holds for the lights with twenty steps and the twenty-first.
\<close>

theorem sequence_end_lags_one_step:
  "melodyIndex ((playNextNote ^^ 10) (startMelody m s)) = 10
   \<and> isPlayingMelody ((playNextNote ^^ 10) (startMelody m s))
   \<and> playNextNote ((playNextNote ^^ 10) (startMelody m s))
       = ((playNextNote ^^ 10) (startMelody m s))\<lparr>isPlayingMelody := False\<rparr>
   \<and> playNextNote (((playNextNote ^^ 10) (startMelody m s))\<lparr>isPlayingMelody := False\<rparr>)
       = ((playNextNote ^^ 10) (startMelody m s))\<lparr>isPlayingMelody := False\<rparr>
   \<and> lightIndex ((updateLights ^^ 20) (startLightEffect e s)) = 20
   \<and> isShowingLights ((updateLights ^^ 20) (startLightEffect e s))
   \<and> updateLights ((updateLights ^^ 20) (startLightEffect e s))
       = ((updateLights ^^ 20) (startLightEffect e s))\<lparr>isShowingLights := False\<rparr>
   \<and> updateLights (((updateLights ^^ 20) (startLightEffect e s))\<lparr>isShowingLights := False\<rparr>)
       = ((updateLights ^^ 20) (startLightEffect e s))\<lparr>isShowingLights := False\<rparr>"
proof -
  let ?a = "(playNextNote ^^ 10) (startMelody m s)"
  let ?b = "(updateLights ^^ 20) (startLightEffect e s)"
  have a: "melodyIndex ?a = 10" "isPlayingMelody ?a"
    using funpow_playNextNote [of 0 10 "startMelody m s"]
    by (simp_all add: startMelody_def)
  have b: "lightIndex ?b = 20" "isShowingLights ?b"
    using funpow_updateLights [of 0 20 "startLightEffect e s"]
    by (simp_all add: startLightEffect_def)
  have a1: "playNextNote ?a = ?a\<lparr>isPlayingMelody := False\<rparr>"
    by (rule playNextNote_end) (simp add: a word_sless_alt)
  have a2: "playNextNote (?a\<lparr>isPlayingMelody := False\<rparr>) = ?a\<lparr>isPlayingMelody := False\<rparr>"
    using playNextNote_end [of "?a\<lparr>isPlayingMelody := False\<rparr>"]
    by (simp add: a word_sless_alt)
  have b1: "updateLights ?b = ?b\<lparr>isShowingLights := False\<rparr>"
    by (rule updateLights_end) (simp add: b word_sless_alt)
  have b2: "updateLights (?b\<lparr>isShowingLights := False\<rparr>) = ?b\<lparr>isShowingLights := False\<rparr>"
    using updateLights_end [of "?b\<lparr>isShowingLights := False\<rparr>"]
    by (simp add: b word_sless_alt)
  show ?thesis
    using a b a1 a2 b1 b2 by (intro conjI)
qed

lemma unat_of_nat_small: "i < 20 \<Longrightarrow> unat (of_nat i :: cint) = i"
  by (simp add: unsigned_of_nat take_bit_nat_eq_self)

lemma effect2_PDOR:
  assumes "i < 20"
  shows "PTB_PDOR (updateLights (s\<lparr>selectedLightEffectID := 2, lightIndex := of_nat i\<rparr>))
         = NOT (push_bit i 1)"
proof -
  have "sint (of_nat i :: cint) < 20"
    using assms by (simp add: sint_of_nat_small)
  then show ?thesis
    using unat_of_nat_small [OF assms]
    by (simp add: updateLights_def TOTAL_LIGHT_STATES_def Let_def out_defs word_sless_alt)
qed

lemma effect2_lit_table:
  "map (\<lambda>i. lit_leds (NOT (push_bit i 1))) [0..<20]
   = [[], [], [LED_D12], [LED_D11], [LED_D10], [LED_D9],
      [], [], [], [], [], [], [], [], [], [], [], [], [], []]"
  by code_simp

text \<open>
  C8.  The LEDs that light effect 2 lights at the step indices 0..19, for any state: one
  LED at the indices 2..5 only, none at the sixteen other indices.  The effect writes
  \<open>~(1 << lightIndex)\<close>, and the LEDs are the lines 2..5 of the port.
\<close>

theorem effect2_lit_leds:
  "map (\<lambda>i. lit_leds (PTB_PDOR (updateLights
           (s\<lparr>selectedLightEffectID := 2, lightIndex := of_nat i\<rparr>)))) [0..<20]
   = [[], [], [LED_D12], [LED_D11], [LED_D10], [LED_D9],
      [], [], [], [], [], [], [], [], [], [], [], [], [], []]"
proof -
  have "map (\<lambda>i. lit_leds (PTB_PDOR (updateLights
           (s\<lparr>selectedLightEffectID := 2, lightIndex := of_nat i\<rparr>)))) [0..<20]
      = map (\<lambda>i. lit_leds (NOT (push_bit i 1))) [0..<20]"
    by (rule map_cong [OF refl]) (simp add: effect2_PDOR)
  then show ?thesis
    by (simp only: effect2_lit_table)
qed

text \<open>
  Light effect 3 maps the index onto the LED lines (\<open>lightIndex % 4 + 2\<close>) and lights
  exactly one LED at every step, cycling through the four.
\<close>

lemma updateLights_effect3:
  "selectedLightEffectID s = 3 \<Longrightarrow> lightIndex s <s 20 \<Longrightarrow>
   PTB_PDOR (updateLights s)
     = NOT (push_bit (unat (word_of_int (sint (lightIndex s) smod 4) + 2 :: cint)) 1)"
  by (simp add: updateLights_def TOTAL_LIGHT_STATES_def Let_def out_defs)

lemma effect3_PDOR:
  assumes "i < 20"
  shows "PTB_PDOR (updateLights (s\<lparr>selectedLightEffectID := 3, lightIndex := of_nat i\<rparr>))
         = NOT (push_bit (i mod 4 + 2) 1)"
proof -
  let ?s = "s\<lparr>selectedLightEffectID := 3, lightIndex := of_nat i\<rparr>"
  have a: "sint (lightIndex ?s) = int i"
    using assms by (simp add: sint_of_nat_small)
  have b: "int i smod 4 = int (i mod 4)"
    by (cases "i = 0") (simp_all add: signed_modulo_int_def zmod_int)
  have "(word_of_int (int (i mod 4)) :: cint) + 2 = of_nat (i mod 4 + 2)"
    by simp
  moreover have "unat (of_nat (i mod 4 + 2) :: cint) = i mod 4 + 2"
    by (rule unat_of_nat_small) simp
  ultimately have c: "unat ((word_of_int (int (i mod 4)) :: cint) + 2) = i mod 4 + 2"
    by (simp only:)
  have lt: "lightIndex ?s <s 20"
    unfolding word_sless_alt a using assms by simp
  have "selectedLightEffectID ?s = 3" by simp
  from updateLights_effect3 [OF this lt] show ?thesis
    by (simp only: a b c)
qed

lemma effect3_lit_table:
  "map (\<lambda>i. lit_leds (NOT (push_bit (i mod 4 + 2) 1))) [0..<20]
   = [[LED_D12], [LED_D11], [LED_D10], [LED_D9], [LED_D12], [LED_D11], [LED_D10], [LED_D9],
      [LED_D12], [LED_D11], [LED_D10], [LED_D9], [LED_D12], [LED_D11], [LED_D10], [LED_D9],
      [LED_D12], [LED_D11], [LED_D10], [LED_D9]]"
  by code_simp

lemma effect3_lit_leds:
  "map (\<lambda>i. lit_leds (PTB_PDOR (updateLights
           (s\<lparr>selectedLightEffectID := 3, lightIndex := of_nat i\<rparr>)))) [0..<20]
   = [[LED_D12], [LED_D11], [LED_D10], [LED_D9], [LED_D12], [LED_D11], [LED_D10], [LED_D9],
      [LED_D12], [LED_D11], [LED_D10], [LED_D9], [LED_D12], [LED_D11], [LED_D10], [LED_D9],
      [LED_D12], [LED_D11], [LED_D10], [LED_D9]]"
proof -
  have "map (\<lambda>i. lit_leds (PTB_PDOR (updateLights
           (s\<lparr>selectedLightEffectID := 3, lightIndex := of_nat i\<rparr>)))) [0..<20]
      = map (\<lambda>i. lit_leds (NOT (push_bit (i mod 4 + 2) 1))) [0..<20]"
    by (rule map_cong [OF refl]) (simp add: effect3_PDOR)
  then show ?thesis
    by (simp only: effect3_lit_table)
qed

section \<open>Date and time entry\<close>

lemma UARTReceiveStr_eq:
  "UARTReceiveStr n s =
     map_option (\<lambda>(r, buffer, rest). (r, buffer, s\<lparr>uart_rx := rest\<rparr>))
       (UARTReceiveStr_loop n [] (uart_rx s))"
  by (simp add: UARTReceiveStr_def split: option.splits)

text \<open>
  C6.  \<open>getUserTimeInput\<close> on the three lines of the claim: \<open>2024-13-01 10:00:00\<close> scans
  as six integers and is rejected by the range check (month 13) with the out-of-range
  message; \<open>2024-02-29 23:59:59\<close> is accepted; \<open>notadate\<close> fails the scan (no field is
  converted) and is rejected with the bad-format message, not the range one.
\<close>

theorem datetime_validation_examples:
  "map_option (\<lambda>(d, s). (d, hw_log s))
       (getUserTimeInput (boot (''2024-13-01 10:00:00'' @ [LF])))
     = Some (None, [Tx MsgInitDone, Tx MsgPromptDateTime, Tx MsgDateTimeOutOfRange])
   \<and> sscanf datetime_format ''2024-13-01 10:00:00'' [] = (6, [2024, 13, 1, 10, 0, 0])
   \<and> map_option (\<lambda>(d, s). (d, hw_log s))
       (getUserTimeInput (boot (''2024-02-29 23:59:59'' @ [LF])))
     = Some (Some \<lparr>dt_year = 2024, dt_month = 2, dt_day = 29,
                     dt_hour = 23, dt_min = 59, dt_sec = 59\<rparr>,
             [Tx MsgInitDone, Tx MsgPromptDateTime])
   \<and> map_option (\<lambda>(d, s). (d, hw_log s))
       (getUserTimeInput (boot (''notadate'' @ [LF])))
     = Some (None, [Tx MsgInitDone, Tx MsgPromptDateTime, Tx MsgDateTimeBadFormat])
   \<and> sscanf datetime_format ''notadate'' [] = (0, [])"
  by code_simp

text \<open>The day is checked against 1..31 whatever the month: two dates no calendar has.\<close>

lemma accepted_2023_02_30:
  "getUserTimeInput (boot (''2023-02-30 00:00:00'' @ [LF]))
     = Some (Some \<lparr>dt_year = 2023, dt_month = 2, dt_day = 30,
                     dt_hour = 0, dt_min = 0, dt_sec = 0\<rparr>,
             (boot [])\<lparr>hw_log := [Tx MsgInitDone, Tx MsgPromptDateTime]\<rparr>)"
  by code_simp

lemma accepted_2024_04_31:
  "getUserTimeInput (boot (''2024-04-31 00:00:00'' @ [LF]))
     = Some (Some \<lparr>dt_year = 2024, dt_month = 4, dt_day = 31,
                     dt_hour = 0, dt_min = 0, dt_sec = 0\<rparr>,
             (boot [])\<lparr>hw_log := [Tx MsgInitDone, Tx MsgPromptDateTime]\<rparr>)"
  by code_simp

text \<open>Day 31 is accepted in each of the twelve months.\<close>

lemma day_31_every_month:
  "map (\<lambda>mm. map_option (\<lambda>(d, s). map_option (\<lambda>x. (dt_month x, dt_day x)) d)
          (getUserTimeInput (boot (''2023-'' @ mm @ ''-31 00:00:00'' @ [LF]))))
       [''01'', ''02'', ''03'', ''04'', ''05'', ''06'', ''07'', ''08'', ''09'', ''10'', ''11'', ''12'']
   = map (\<lambda>m. Some (Some (m, 31))) [1, 2, 3, 4, 5, 6, 7, 8, 9, 10, 11, 12]"
  by code_simp


text \<open>
  What \<open>getUserTimeInput\<close> returns for a line that scans as six integers: it accepts
  exactly when each field is within its own fixed bounds.
\<close>

lemma getUserTimeInput_scanned:
  assumes "UARTReceiveStr_loop 100 [] (uart_rx s) = Some (r, buffer, rest)"
    and "sscanf datetime_format (cstr buffer) [] = (6, [y, mo, d, h, mi, se])"
  shows "getUserTimeInput s =
     (if 1900 <s y \<and> 1 \<le>s mo \<and> mo \<le>s 12 \<and> 1 \<le>s d \<and> d \<le>s 31
         \<and> 0 \<le>s h \<and> h <s 24 \<and> 0 \<le>s mi \<and> mi <s 60 \<and> 0 \<le>s se \<and> se <s 60
      then Some (Some \<lparr>dt_year = y, dt_month = mo, dt_day = d,
                         dt_hour = h, dt_min = mi, dt_sec = se\<rparr>,
                 s\<lparr>uart_rx := rest, hw_log := hw_log s @ [Tx MsgPromptDateTime]\<rparr>)
      else Some (None,
                 s\<lparr>uart_rx := rest,
                   hw_log := hw_log s @ [Tx MsgPromptDateTime, Tx MsgDateTimeOutOfRange]\<rparr>))"
  using assms
  by (simp add: getUserTimeInput_def UARTReceiveStr_eq UARTSendStr_def emit_def Let_def)

text \<open>
  C10.  For every line that scans as six integers, the validator accepts exactly when
  \<open>year > 1900\<close>, \<open>1 \<le> month \<le> 12\<close>, \<open>1 \<le> day \<le> 31\<close>, \<open>0 \<le> hour < 24\<close>,
  \<open>0 \<le> min < 60\<close> and \<open>0 \<le> sec < 60\<close>: the bound on the day is 1..31 whatever the
  month and the year.  An accepted date is passed on as it is: \<open>setClock\<close> writes to
  \<open>RTC_TSR\<close>, and \<open>setAlarm\<close> stores as alarm time and match time, what \<open>mktime\<close> makes
  of the fields, whatever \<open>mktime\<close> is; a rejected one changes neither.  So
  \<open>2023-02-30 00:00:00\<close> and \<open>2024-04-31 00:00:00\<close> are accepted and reach \<open>mktime\<close> as
  day 30 of February (\<open>tm_mon = 1\<close>) and day 31 of April (\<open>tm_mon = 3\<close>).
\<close>

theorem calendar_invalid_dates_accepted:
  assumes "UARTReceiveStr_loop 100 [] (uart_rx s) = Some (r, buffer, rest)"
    and "sscanf datetime_format (cstr buffer) [] = (6, [y, mo, d, h, mi, se])"
  shows "(if 1900 <s y \<and> 1 \<le>s mo \<and> mo \<le>s 12 \<and> 1 \<le>s d \<and> d \<le>s 31
             \<and> 0 \<le>s h \<and> h <s 24 \<and> 0 \<le>s mi \<and> mi <s 60 \<and> 0 \<le>s se \<and> se <s 60
          then map_option fst (getUserTimeInput s)
                 = Some (Some \<lparr>dt_year = y, dt_month = mo, dt_day = d,
                                 dt_hour = h, dt_min = mi, dt_sec = se\<rparr>)
             \<and> map_option RTC_TSR (setClock mktime s)
                 = Some (word_of_int (mktime
                     \<lparr>tm_sec = se, tm_min = mi, tm_hour = h, tm_mday = d,
                      tm_mon = mo - 1, tm_year = y - 1900, tm_isdst = None\<rparr>))
             \<and> map_option (\<lambda>x. (globalAlarmTime x, RTC_TAR x)) (setAlarm mktime s)
                 = Some (mktime
                     \<lparr>tm_sec = se, tm_min = mi, tm_hour = h, tm_mday = d,
                      tm_mon = mo - 1, tm_year = y - 1900, tm_isdst = Some (- 1)\<rparr>,
                   word_of_int (mktime
                     \<lparr>tm_sec = se, tm_min = mi, tm_hour = h, tm_mday = d,
                      tm_mon = mo - 1, tm_year = y - 1900, tm_isdst = Some (- 1)\<rparr>))
          else map_option (\<lambda>(x, s'). (x, last (hw_log s'))) (getUserTimeInput s)
                 = Some (None, Tx MsgDateTimeOutOfRange)
             \<and> map_option RTC_TSR (setClock mktime s) = Some (RTC_TSR s)
             \<and> map_option (\<lambda>x. (globalAlarmTime x, RTC_TAR x)) (setAlarm mktime s)
                 = Some (globalAlarmTime s, RTC_TAR s))
   \<and> map_option fst (getUserTimeInput (boot (''2023-02-30 00:00:00'' @ [LF])))
     = Some (Some \<lparr>dt_year = 2023, dt_month = 2, dt_day = 30,
                     dt_hour = 0, dt_min = 0, dt_sec = 0\<rparr>)
   \<and> map_option RTC_TSR (setClock mktime (boot (''2023-02-30 00:00:00'' @ [LF])))
     = Some (word_of_int (mktime \<lparr>tm_sec = 0, tm_min = 0, tm_hour = 0, tm_mday = 30,
                                   tm_mon = 1, tm_year = 123, tm_isdst = None\<rparr>))
   \<and> map_option globalAlarmTime (setAlarm mktime (boot (''2023-02-30 00:00:00'' @ [LF])))
     = Some (mktime \<lparr>tm_sec = 0, tm_min = 0, tm_hour = 0, tm_mday = 30,
                      tm_mon = 1, tm_year = 123, tm_isdst = Some (- 1)\<rparr>)
   \<and> map_option fst (getUserTimeInput (boot (''2024-04-31 00:00:00'' @ [LF])))
     = Some (Some \<lparr>dt_year = 2024, dt_month = 4, dt_day = 31,
                     dt_hour = 0, dt_min = 0, dt_sec = 0\<rparr>)
   \<and> map_option RTC_TSR (setClock mktime (boot (''2024-04-31 00:00:00'' @ [LF])))
     = Some (word_of_int (mktime \<lparr>tm_sec = 0, tm_min = 0, tm_hour = 0, tm_mday = 31,
                                   tm_mon = 3, tm_year = 124, tm_isdst = None\<rparr>))
   \<and> map_option globalAlarmTime (setAlarm mktime (boot (''2024-04-31 00:00:00'' @ [LF])))
     = Some (mktime \<lparr>tm_sec = 0, tm_min = 0, tm_hour = 0, tm_mday = 31,
                      tm_mon = 3, tm_year = 124, tm_isdst = Some (- 1)\<rparr>)"
proof -
  note G = getUserTimeInput_scanned [OF assms]
  have general:
    "(if 1900 <s y \<and> 1 \<le>s mo \<and> mo \<le>s 12 \<and> 1 \<le>s d \<and> d \<le>s 31
             \<and> 0 \<le>s h \<and> h <s 24 \<and> 0 \<le>s mi \<and> mi <s 60 \<and> 0 \<le>s se \<and> se <s 60
          then map_option fst (getUserTimeInput s)
                 = Some (Some \<lparr>dt_year = y, dt_month = mo, dt_day = d,
                                 dt_hour = h, dt_min = mi, dt_sec = se\<rparr>)
             \<and> map_option RTC_TSR (setClock mktime s)
                 = Some (word_of_int (mktime
                     \<lparr>tm_sec = se, tm_min = mi, tm_hour = h, tm_mday = d,
                      tm_mon = mo - 1, tm_year = y - 1900, tm_isdst = None\<rparr>))
             \<and> map_option (\<lambda>x. (globalAlarmTime x, RTC_TAR x)) (setAlarm mktime s)
                 = Some (mktime
                     \<lparr>tm_sec = se, tm_min = mi, tm_hour = h, tm_mday = d,
                      tm_mon = mo - 1, tm_year = y - 1900, tm_isdst = Some (- 1)\<rparr>,
                   word_of_int (mktime
                     \<lparr>tm_sec = se, tm_min = mi, tm_hour = h, tm_mday = d,
                      tm_mon = mo - 1, tm_year = y - 1900, tm_isdst = Some (- 1)\<rparr>))
          else map_option (\<lambda>(x, s'). (x, last (hw_log s'))) (getUserTimeInput s)
                 = Some (None, Tx MsgDateTimeOutOfRange)
             \<and> map_option RTC_TSR (setClock mktime s) = Some (RTC_TSR s)
             \<and> map_option (\<lambda>x. (globalAlarmTime x, RTC_TAR x)) (setAlarm mktime s)
                 = Some (globalAlarmTime s, RTC_TAR s))"
    unfolding setClock_def setAlarm_def G
    by (simp add: Let_def UARTSendStr_def emit_def)
  have examples:
    "map_option fst (getUserTimeInput (boot (''2023-02-30 00:00:00'' @ [LF])))
     = Some (Some \<lparr>dt_year = 2023, dt_month = 2, dt_day = 30,
                     dt_hour = 0, dt_min = 0, dt_sec = 0\<rparr>)
   \<and> map_option RTC_TSR (setClock mktime (boot (''2023-02-30 00:00:00'' @ [LF])))
     = Some (word_of_int (mktime \<lparr>tm_sec = 0, tm_min = 0, tm_hour = 0, tm_mday = 30,
                                   tm_mon = 1, tm_year = 123, tm_isdst = None\<rparr>))
   \<and> map_option globalAlarmTime (setAlarm mktime (boot (''2023-02-30 00:00:00'' @ [LF])))
     = Some (mktime \<lparr>tm_sec = 0, tm_min = 0, tm_hour = 0, tm_mday = 30,
                      tm_mon = 1, tm_year = 123, tm_isdst = Some (- 1)\<rparr>)
   \<and> map_option fst (getUserTimeInput (boot (''2024-04-31 00:00:00'' @ [LF])))
     = Some (Some \<lparr>dt_year = 2024, dt_month = 4, dt_day = 31,
                     dt_hour = 0, dt_min = 0, dt_sec = 0\<rparr>)
   \<and> map_option RTC_TSR (setClock mktime (boot (''2024-04-31 00:00:00'' @ [LF])))
     = Some (word_of_int (mktime \<lparr>tm_sec = 0, tm_min = 0, tm_hour = 0, tm_mday = 31,
                                   tm_mon = 3, tm_year = 124, tm_isdst = None\<rparr>))
   \<and> map_option globalAlarmTime (setAlarm mktime (boot (''2024-04-31 00:00:00'' @ [LF])))
     = Some (mktime \<lparr>tm_sec = 0, tm_min = 0, tm_hour = 0, tm_mday = 31,
                      tm_mon = 3, tm_year = 124, tm_isdst = Some (- 1)\<rparr>)"
    unfolding setClock_def setAlarm_def accepted_2023_02_30 accepted_2024_04_31
    by (simp add: Let_def UARTSendStr_def emit_def)
  from general examples show ?thesis by (rule conjI)
qed

theorem calendar_invalid_dates_accepted_witness:
  "UARTReceiveStr_loop 100 [] (uart_rx (boot (''2023-02-30 00:00:00'' @ [LF])))
     = Some (False, ''2023-02-30 00:00:00'', [])
   \<and> sscanf datetime_format (cstr ''2023-02-30 00:00:00'') [] = (6, [2023, 2, 30, 0, 0, 0])
   \<and> map_option fst (getUserTimeInput (boot (''2023-02-30 00:00:00'' @ [LF])))
       = Some (Some \<lparr>dt_year = 2023, dt_month = 2, dt_day = 30,
                       dt_hour = 0, dt_min = 0, dt_sec = 0\<rparr>)
   \<and> map_option RTC_TSR
         (setClock (\<lambda>t. sint (tm_mday t) * 100 + sint (tm_mon t))
            (boot (''2023-02-30 00:00:00'' @ [LF])))
       = Some 3001
   \<and> map_option (\<lambda>x. (globalAlarmTime x, RTC_TAR x))
         (setAlarm (\<lambda>t. sint (tm_mday t) * 100 + sint (tm_mon t))
            (boot (''2023-02-30 00:00:00'' @ [LF])))
       = Some (3001, 3001)
   \<and> UARTReceiveStr_loop 100 [] (uart_rx (boot (''2023-02-32 00:00:00'' @ [LF])))
     = Some (False, ''2023-02-32 00:00:00'', [])
   \<and> sscanf datetime_format (cstr ''2023-02-32 00:00:00'') [] = (6, [2023, 2, 32, 0, 0, 0])
   \<and> map_option (\<lambda>(x, s'). (x, last (hw_log s')))
         (getUserTimeInput (boot (''2023-02-32 00:00:00'' @ [LF])))
       = Some (None, Tx MsgDateTimeOutOfRange)
   \<and> map_option RTC_TSR
         (setClock (\<lambda>t. sint (tm_mday t) * 100 + sint (tm_mon t))
            (boot (''2023-02-32 00:00:00'' @ [LF])))
       = Some 0"
proof -
  have a1: "UARTReceiveStr_loop 100 [] (uart_rx (boot (''2023-02-30 00:00:00'' @ [LF])))
     = Some (False, ''2023-02-30 00:00:00'', [])"
    by code_simp
  have a2: "sscanf datetime_format (cstr ''2023-02-30 00:00:00'') []
     = (6, [2023, 2, 30, 0, 0, 0])"
    by code_simp
  have b1: "UARTReceiveStr_loop 100 [] (uart_rx (boot (''2023-02-32 00:00:00'' @ [LF])))
     = Some (False, ''2023-02-32 00:00:00'', [])"
    by code_simp
  have b2: "sscanf datetime_format (cstr ''2023-02-32 00:00:00'') []
     = (6, [2023, 2, 32, 0, 0, 0])"
    by code_simp
  have ra: "(1900::cint) <s 2023 \<and> (1::cint) \<le>s 2 \<and> (2::cint) \<le>s 12
      \<and> (1::cint) \<le>s 30 \<and> (30::cint) \<le>s 31
      \<and> (0::cint) \<le>s 0 \<and> (0::cint) <s 24 \<and> (0::cint) <s 60"
    by (simp add: word_sless_alt word_sle_eq)
  have rb: "\<not> (32::cint) \<le>s 31"
    by (simp add: word_sle_eq)
  have t0: "RTC_TSR (boot (''2023-02-32 00:00:00'' @ [LF])) = 0"
    by (simp add: boot_def)
  note A = calendar_invalid_dates_accepted
    [OF a1 a2, of "\<lambda>t. sint (tm_mday t) * 100 + sint (tm_mon t)", THEN conjunct1]
  note B = calendar_invalid_dates_accepted
    [OF b1 b2, of "\<lambda>t. sint (tm_mday t) * 100 + sint (tm_mon t)", THEN conjunct1]
  have A': "map_option fst (getUserTimeInput (boot (''2023-02-30 00:00:00'' @ [LF])))
       = Some (Some \<lparr>dt_year = 2023, dt_month = 2, dt_day = 30,
                       dt_hour = 0, dt_min = 0, dt_sec = 0\<rparr>)
   \<and> map_option RTC_TSR
         (setClock (\<lambda>t. sint (tm_mday t) * 100 + sint (tm_mon t))
            (boot (''2023-02-30 00:00:00'' @ [LF])))
       = Some 3001
   \<and> map_option (\<lambda>x. (globalAlarmTime x, RTC_TAR x))
         (setAlarm (\<lambda>t. sint (tm_mday t) * 100 + sint (tm_mon t))
            (boot (''2023-02-30 00:00:00'' @ [LF])))
       = Some (3001, 3001)"
    using A ra by simp
  have B': "map_option (\<lambda>(x, s'). (x, last (hw_log s')))
         (getUserTimeInput (boot (''2023-02-32 00:00:00'' @ [LF])))
       = Some (None, Tx MsgDateTimeOutOfRange)
   \<and> map_option RTC_TSR
         (setClock (\<lambda>t. sint (tm_mday t) * 100 + sint (tm_mon t))
            (boot (''2023-02-32 00:00:00'' @ [LF])))
       = Some 0"
    using B rb t0 by simp
  from a1 a2 A' b1 b2 B' show ?thesis by (intro conjI) simp_all
qed

section \<open>The repeat policy\<close>

text \<open>
  C2, amended.  What \<open>setAlarmRepeat\<close> does, given the first line the UART delivers: a
  count below 0 aborts with nothing changed but the prompt and the error message sent (the
  interval is not asked for); a count of 0 or more is stored at once, and then the second
  line decides only the interval: an interval of 0 or less leaves \<open>alarmIntervalSeconds\<close>
  as it was, with \<open>alarmRepeatCount\<close> already updated.
\<close>

theorem setAlarmRepeat_effect:
  assumes "UARTReceiveStr_loop 100 [] (uart_rx s) = Some (r, buffer, rest)"
  shows "setAlarmRepeat s =
     (if 0 \<le>s atoi (cstr buffer) then
        (case UARTReceiveStr_loop 100 [] rest of
           None \<Rightarrow> None
         | Some (r', buffer', rest') \<Rightarrow>
             Some (s\<lparr>alarmRepeatCount := atoi (cstr buffer),
                     alarmIntervalSeconds :=
                       (if 0 <s atoi (cstr buffer') then atoi (cstr buffer')
                        else alarmIntervalSeconds s),
                     uart_rx := rest',
                     hw_log := hw_log s @
                       [Tx MsgPromptRepeatCount, Tx MsgPromptInterval,
                        if 0 <s atoi (cstr buffer') then Tx MsgRepeatUpdated
                        else Tx MsgIntervalInvalid]\<rparr>))
      else Some (s\<lparr>uart_rx := rest,
                   hw_log := hw_log s @ [Tx MsgPromptRepeatCount, Tx MsgRepeatCountInvalid]\<rparr>))"
  using assms
  by (simp add: setAlarmRepeat_def UARTReceiveStr_eq UARTSendStr_def emit_def Let_def
      split: option.splits)


theorem setAlarmRepeat_effect_witness:
  "UARTReceiveStr_loop 100 [] (uart_rx (boot (''3'' @ [LF] @ ''0'' @ [LF])))
     = Some (False, ''3'', ''0'' @ [LF])
   \<and> setAlarmRepeat (boot (''3'' @ [LF] @ ''0'' @ [LF]))
     = Some ((boot [])\<lparr>alarmRepeatCount := 3,
               hw_log := [Tx MsgInitDone, Tx MsgPromptRepeatCount, Tx MsgPromptInterval,
                          Tx MsgIntervalInvalid]\<rparr>)"
proof -
  have h: "UARTReceiveStr_loop 100 [] (uart_rx (boot (''3'' @ [LF] @ ''0'' @ [LF])))
     = Some (False, ''3'', ''0'' @ [LF])"
    by code_simp
  have a: "atoi (cstr ''3'') = 3" "atoi (cstr ''0'') = 0"
    "UARTReceiveStr_loop 100 [] (''0'' @ [LF]) = Some (False, ''0'', [])"
    by code_simp+
  have b: "(0::cint) \<le>s 3" "\<not> (0::cint) <s 0"
    by (simp_all add: word_sle_eq word_sless_alt)
  have "setAlarmRepeat (boot (''3'' @ [LF] @ ''0'' @ [LF]))
     = Some ((boot (''3'' @ [LF] @ ''0'' @ [LF]))
              \<lparr>alarmRepeatCount := 3,
               alarmIntervalSeconds := alarmIntervalSeconds (boot (''3'' @ [LF] @ ''0'' @ [LF])),
               uart_rx := [],
               hw_log := hw_log (boot (''3'' @ [LF] @ ''0'' @ [LF])) @
                 [Tx MsgPromptRepeatCount, Tx MsgPromptInterval, Tx MsgIntervalInvalid]\<rparr>)"
    using setAlarmRepeat_effect [OF h]
    by (simp only: a b if_True if_False option.case prod.case)
  then have "setAlarmRepeat (boot (''3'' @ [LF] @ ''0'' @ [LF]))
     = Some ((boot [])\<lparr>alarmRepeatCount := 3,
               hw_log := [Tx MsgInitDone, Tx MsgPromptRepeatCount, Tx MsgPromptInterval,
                          Tx MsgIntervalInvalid]\<rparr>)"
    by (simp add: boot_def)
  with h show ?thesis by (intro conjI)
qed

text \<open>
  C2 as stated fails: after boot the repeat count is 5; the lines \<open>3\<close> and \<open>0\<close> (a valid
  count, an invalid interval) leave it at 3, with the invalid-interval message sent and the
  interval still 5.
\<close>

theorem setAlarmRepeat_partial_update_counterexample:
  "alarmRepeatCount (boot (''3'' @ [LF] @ ''0'' @ [LF])) = 5
   \<and> map_option (\<lambda>s. (alarmRepeatCount s, alarmIntervalSeconds s, last (hw_log s)))
         (setAlarmRepeat (boot (''3'' @ [LF] @ ''0'' @ [LF])))
       = Some (3, 5, Tx MsgIntervalInvalid)"
  by code_simp

section \<open>The repeat counter and the set-alarm command\<close>

lemma getUserTimeInput_frame:
  "getUserTimeInput s = Some (d, s1) \<Longrightarrow> currentRepeatCount s1 = currentRepeatCount s"
  by (auto simp: getUserTimeInput_def UARTReceiveStr_eq UARTSendStr_def emit_def Let_def
      split: option.splits prod.splits if_splits)

lemma setAlarm_counter:
  "setAlarm mktime s = Some s' \<Longrightarrow> currentRepeatCount s' = currentRepeatCount s"
  by (auto simp: setAlarm_def UARTSendStr_def emit_def Let_def
      split: option.splits prod.splits dest: getUserTimeInput_frame)

lemma UARTReceiveStr_counter:
  "UARTReceiveStr n s = Some (r, buffer, s1) \<Longrightarrow> currentRepeatCount s1 = currentRepeatCount s"
  by (auto simp: UARTReceiveStr_eq)

lemma send_counter [simp]:
  "currentRepeatCount (UARTSendStr m s) = currentRepeatCount s"
  "currentRepeatCount (displayMenu s) = currentRepeatCount s"
  by (simp_all add: out_defs)

lemma setClock_counter:
  "setClock mktime s = Some s' \<Longrightarrow> currentRepeatCount s' = currentRepeatCount s"
  by (auto simp: setClock_def Let_def
      split: option.splits prod.splits dest: getUserTimeInput_frame)

lemma chooseMelody_counter:
  "chooseMelody s = Some s' \<Longrightarrow> currentRepeatCount s' = currentRepeatCount s"
  by (auto simp: chooseMelody_def Let_def
      split: option.splits prod.splits if_splits dest: UARTReceiveStr_counter)

lemma chooseLightEffect_counter:
  "chooseLightEffect s = Some s' \<Longrightarrow> currentRepeatCount s' = currentRepeatCount s"
  by (auto simp: chooseLightEffect_def Let_def
      split: option.splits prod.splits if_splits dest: UARTReceiveStr_counter)

lemma setAlarmRepeat_counter:
  "setAlarmRepeat s = Some s' \<Longrightarrow> currentRepeatCount s' = currentRepeatCount s"
  by (auto simp: setAlarmRepeat_def Let_def
      split: option.splits prod.splits if_splits dest!: UARTReceiveStr_counter)

lemma toggleAlarm_counter [simp]:
  "currentRepeatCount (toggleAlarm e s) = currentRepeatCount s"
  by (simp add: toggleAlarm_def)

lemma displayAlarmStatus_counter [simp]:
  "currentRepeatCount (displayAlarmStatus s) = currentRepeatCount s"
  by (simp add: displayAlarmStatus_def out_defs Let_def)

lemma processUserInput_counter:
  "processUserInput mktime input s = Some s' \<Longrightarrow> currentRepeatCount s' = currentRepeatCount s"
  by (auto simp: processUserInput_def Let_def run_def
      split: option.splits prod.splits if_splits
      dest!: UARTReceiveStr_counter setClock_counter setAlarm_counter chooseMelody_counter
        chooseLightEffect_counter setAlarmRepeat_counter)

lemma checkUserInput_counter:
  "checkUserInput mktime s = Some s' \<Longrightarrow> currentRepeatCount s' = currentRepeatCount s"
  by (auto simp: checkUserInput_def Let_def
      split: InterfaceState.splits list.splits if_splits dest!: processUserInput_counter)

lemma polls_counter:
  "polls n mktime s = Some s' \<Longrightarrow> currentRepeatCount s' = currentRepeatCount s"
proof (induction n arbitrary: s)
  case 0
  then show ?case by simp
next
  case (Suc n)
  then obtain s1 where a: "checkUserInput mktime s = Some s1" and b: "polls n mktime s1 = Some s'"
    by (auto split: option.splits)
  from Suc.IH [OF b] checkUserInput_counter [OF a] show ?case by simp
qed

text \<open>
  C9, amended.  Nothing outside the time-match handler changes the repeat counter: not
  \<open>setAlarm\<close>, nor any poll of the main loop, whatever command it dispatches (the counter is
  a static local of \<open>handleAlarmRepeats\<close>), and the handler leaves the state alone when
  the alarm flag is not set.  Inside the handler the counter goes back to its initial
  value 1 exactly when the alarm is disabled or the repeats are exhausted; otherwise it
  advances by one.  (\<open>alarmRepeatCount + 1\<close> must not overflow: the count is below
  \<open>INT_MAX\<close>.)
\<close>

theorem counter_reset_only_in_handler:
  "(polls n mktime p = Some p' \<longrightarrow> currentRepeatCount p' = currentRepeatCount p)
   \<and> (checkUserInput mktime c = Some c' \<longrightarrow> currentRepeatCount c' = currentRepeatCount c)
   \<and> (setAlarm mktime s = Some s' \<longrightarrow> currentRepeatCount s' = currentRepeatCount s)
   \<and> (\<not> RTC_TAF w \<longrightarrow> RTC_IRQHandler w = w)
   \<and> (\<not> alarmEnabled t \<longrightarrow> currentRepeatCount (time_match t) = 1)
   \<and> (alarmEnabled u \<and> alarmRepeatCount u \<noteq> 0x7FFFFFFF
        \<and> \<not> currentRepeatCount u <s alarmRepeatCount u + 1
        \<longrightarrow> currentRepeatCount (time_match u) = 1)
   \<and> (alarmEnabled v \<and> alarmRepeatCount v \<noteq> 0x7FFFFFFF
        \<and> currentRepeatCount v <s alarmRepeatCount v + 1
        \<longrightarrow> currentRepeatCount (time_match v) = currentRepeatCount v + 1)"
proof (intro conjI impI)
  assume "polls n mktime p = Some p'"
  then show "currentRepeatCount p' = currentRepeatCount p" by (rule polls_counter)
next
  assume "checkUserInput mktime c = Some c'"
  then show "currentRepeatCount c' = currentRepeatCount c" by (rule checkUserInput_counter)
next
  assume "setAlarm mktime s = Some s'"
  then show "currentRepeatCount s' = currentRepeatCount s" by (rule setAlarm_counter)
next
  assume "\<not> RTC_TAF w"
  then show "RTC_IRQHandler w = w" by (simp add: RTC_IRQHandler_def)
next
  assume "\<not> alarmEnabled t"
  then show "currentRepeatCount (time_match t) = 1"
    by (simp add: time_match_def RTC_IRQHandler_def handleAlarmRepeats_def Let_def out_defs)
next
  assume "alarmEnabled u \<and> alarmRepeatCount u \<noteq> 0x7FFFFFFF
        \<and> \<not> currentRepeatCount u <s alarmRepeatCount u + 1"
  then show "currentRepeatCount (time_match u) = 1"
    using time_match_exhausted(1) [of u] by simp
next
  assume "alarmEnabled v \<and> alarmRepeatCount v \<noteq> 0x7FFFFFFF
        \<and> currentRepeatCount v <s alarmRepeatCount v + 1"
  then show "currentRepeatCount (time_match v) = currentRepeatCount v + 1"
    using time_match_rearm(1) [of v] by simp
qed

text \<open>The example state reads a valid date and time.\<close>

lemma mid_sequence_input:
  "getUserTimeInput mid_sequence_example
     = Some (Some \<lparr>dt_year = 2024, dt_month = 2, dt_day = 29,
                     dt_hour = 23, dt_min = 59, dt_sec = 59\<rparr>,
             (boot [])\<lparr>alarmEnabled := True, currentRepeatCount := 3,
                        hw_log := [Tx MsgInitDone, Tx MsgPromptDateTime]\<rparr>)"
  by code_simp

text \<open>
  C9 as stated fails: with the counter at 3 in the middle of a repeat sequence, setting a
  new alarm time succeeds and leaves the counter at 3.
\<close>

theorem setAlarm_keeps_counter_counterexample:
  "currentRepeatCount mid_sequence_example = 3
   \<and> (\<forall>mktime. map_option currentRepeatCount (setAlarm mktime mid_sequence_example) = Some 3)
   \<and> (\<forall>mktime. map_option (\<lambda>s. last (hw_log s)) (setAlarm mktime mid_sequence_example)
         = Some (Tx MsgAlarmSet))"
  unfolding setAlarm_def mid_sequence_input
  by (simp add: Let_def UARTSendStr_def emit_def) (simp add: mid_sequence_example_def)

text \<open>The second example runs command 2 through four polls of the main loop.\<close>

lemma menu_example_polls:
  "map_option (\<lambda>x. (interfaceState x, currentRepeatCount x, globalAlarmTime x, RTC_TAR x,
                      uart_rx x, last (hw_log x)))
     (polls 4 (\<lambda>t. 1000) menu_example)
   = Some (IDLE, 3, 1000, 1000, [], Tx MsgMenu)"
  by code_simp

lemma menu_example_poll:
  "map_option (\<lambda>x. (interfaceState x, currentRepeatCount x))
     (checkUserInput (\<lambda>t. 1000) menu_example)
   = Some (READING_INPUT, 3)"
  by code_simp

theorem counter_reset_only_in_handler_witness:
  "(\<exists>p'. polls 4 (\<lambda>t. 1000) menu_example = Some p' \<and> currentRepeatCount p' = 3
          \<and> globalAlarmTime p' = 1000)
   \<and> (\<exists>c'. checkUserInput (\<lambda>t. 1000) menu_example = Some c' \<and> currentRepeatCount c' = 3)
   \<and> (\<exists>s'. setAlarm (\<lambda>t. 1000) mid_sequence_example = Some s' \<and> currentRepeatCount s' = 3)
   \<and> \<not> RTC_TAF (boot []) \<and> RTC_IRQHandler (boot []) = boot []
   \<and> \<not> alarmEnabled ((boot [])\<lparr>currentRepeatCount := 4\<rparr>)
   \<and> currentRepeatCount (time_match ((boot [])\<lparr>currentRepeatCount := 4\<rparr>)) = 1
   \<and> alarmEnabled (armed_example\<lparr>currentRepeatCount := 3\<rparr>)
   \<and> alarmRepeatCount (armed_example\<lparr>currentRepeatCount := 3\<rparr>) \<noteq> 0x7FFFFFFF
   \<and> \<not> currentRepeatCount (armed_example\<lparr>currentRepeatCount := 3\<rparr>)
          <s alarmRepeatCount (armed_example\<lparr>currentRepeatCount := 3\<rparr>) + 1
   \<and> currentRepeatCount (time_match (armed_example\<lparr>currentRepeatCount := 3\<rparr>)) = 1
   \<and> alarmEnabled armed_example
   \<and> currentRepeatCount armed_example <s alarmRepeatCount armed_example + 1
   \<and> currentRepeatCount (time_match armed_example) = 2"
proof -
  obtain p' where p': "polls 4 (\<lambda>t. 1000) menu_example = Some p'" "globalAlarmTime p' = 1000"
    using menu_example_polls by (auto simp: map_option_case split: option.splits)
  obtain c' where c': "checkUserInput (\<lambda>t. 1000) menu_example = Some c'"
    using menu_example_poll by (auto simp: map_option_case split: option.splits)
  obtain s' where s': "setAlarm (\<lambda>t. 1000) mid_sequence_example = Some s'"
    unfolding setAlarm_def mid_sequence_input by (simp add: Let_def)
  have e: "currentRepeatCount menu_example = 3" "currentRepeatCount mid_sequence_example = 3"
    by (simp_all add: menu_example_def mid_sequence_example_def)
  have w: "\<not> RTC_TAF (boot [])" by (simp add: boot_def)
  have t: "\<not> alarmEnabled ((boot [])\<lparr>currentRepeatCount := 4\<rparr>)"
    by (simp add: boot_def)
  have u: "alarmEnabled (armed_example\<lparr>currentRepeatCount := 3\<rparr>)"
    "alarmRepeatCount (armed_example\<lparr>currentRepeatCount := 3\<rparr>) \<noteq> 0x7FFFFFFF"
    "\<not> currentRepeatCount (armed_example\<lparr>currentRepeatCount := 3\<rparr>)
          <s alarmRepeatCount (armed_example\<lparr>currentRepeatCount := 3\<rparr>) + 1"
    by (simp_all add: armed_example_def boot_def word_sless_alt)
  have v: "alarmEnabled armed_example" "alarmRepeatCount armed_example \<noteq> 0x7FFFFFFF"
    "currentRepeatCount armed_example <s alarmRepeatCount armed_example + 1"
    "currentRepeatCount armed_example + 1 = 2"
    by (simp_all add: armed_example_def boot_def word_sless_alt)
  note T = counter_reset_only_in_handler
    [of 4 "\<lambda>t. 1000" menu_example p' menu_example c' mid_sequence_example s' "boot []"
        "(boot [])\<lparr>currentRepeatCount := 4\<rparr>" "armed_example\<lparr>currentRepeatCount := 3\<rparr>"
        armed_example]
  show ?thesis
    using T p' c' s' e w t u v by simp
qed

section \<open>The command reader\<close>

text \<open>
  C7.  The bytes \<open>7\<close> and line feed take \<open>checkUserInput\<close> from \<open>IDLE\<close> to
  \<open>READING_INPUT\<close> (first poll, no byte consumed) to \<open>PROCESSING_INPUT\<close> with the buffer
  \<open>7\<close>.  But \<open>checkUserInput\<close> has no case for backspace or delete: after one character
  and a backspace the buffer holds both bytes and the index is 2, and the line \<open>1\<close>,
  backspace, \<open>7\<close> is dispatched as the three bytes, which \<open>atoi\<close> reads as 1.  The blocking
  reader \<open>UARTReceiveStr\<close> does remove the character, for both control codes.
\<close>

theorem poll_reader_stores_backspace:
  "map (\<lambda>n. map_option interfaceState (polls n mktime (boot (''7'' @ [LF])))) [0, 1, 2, 3]
     = [Some IDLE, Some READING_INPUT, Some READING_INPUT, Some PROCESSING_INPUT]
   \<and> map_option (\<lambda>s. cstr (inputBuffer s)) (polls 3 mktime (boot (''7'' @ [LF]))) = Some ''7''
   \<and> map_option (\<lambda>s. (interfaceState s, inputIndex s, take (unat (inputIndex s)) (inputBuffer s)))
         (polls 3 mktime (boot (''1'' @ [BS])))
       = Some (READING_INPUT, 2, ''1'' @ [BS])
   \<and> map_option (\<lambda>s. (interfaceState s, cstr (inputBuffer s), atoi (cstr (inputBuffer s))))
         (polls 5 mktime (boot (''1'' @ [BS] @ ''7'' @ [LF])))
       = Some (PROCESSING_INPUT, ''1'' @ [BS] @ ''7'', 1)
   \<and> UARTReceiveStr_loop 100 [] (''1'' @ [BS] @ ''7'' @ [LF]) = Some (False, ''7'', [])
   \<and> UARTReceiveStr_loop 100 [] (''1'' @ [DEL] @ ''7'' @ [LF]) = Some (False, ''7'', [])"
  by code_simp

text \<open>
  In state \<open>READING_INPUT\<close> every byte other than line feed and carriage return is stored
  while there is room, the control codes included.
\<close>

lemma reading_stores_any_byte:
  assumes "interfaceState s = READING_INPUT" "uart_rx s = c # rest"
    and "c \<noteq> LF" "c \<noteq> CR" "inputIndex s < 99"
  shows "checkUserInput mktime s =
    Some (s\<lparr>uart_rx := rest,
            inputBuffer := (inputBuffer s)[unat (inputIndex s) := c],
            inputIndex := inputIndex s + 1\<rparr>)"
  using assms by (simp add: checkUserInput_def Let_def)

end
